theory Spec2Isabelle
  imports Complex_Main "HOL-Library.Word" "HOL-Library.Sublist"
begin

section \<open>The program and its surroundings\<close>

text \<open>
  The program of \<^verbatim>\<open>src/projetoGLFW/main.cpp\<close> is a sequence of calls into two
  libraries, GLFW and OpenGL. It is embedded as functions on a \<open>world\<close>: the trace of
  every library call made so far, in order and with its arguments, the text written to
  \<^verbatim>\<open>std::cout\<close>, and the part of the window and context state that the program reads
  back or that decides what a draw call shows. What the surroundings decide (whether the
  window could be created, whether the driver compiles and links the shaders, the key
  state and the window events of each frame) is an input, the \<open>env\<close>.

  The window handle is left out of the calls: the program has a single window.
  A \<^verbatim>\<open>float\<close> literal is represented by the decimal number written in the source; the
  program passes these literals to the library and computes nothing with them.
\<close>

subsection \<open>Values\<close>

type_synonym GLuint = "32 word"
type_synonym GLfloat = real

datatype gl_const =
    GL_ARRAY_BUFFER | GL_ELEMENT_ARRAY_BUFFER | GL_STATIC_DRAW
  | GL_VERTEX_SHADER | GL_FRAGMENT_SHADER | GL_COMPILE_STATUS | GL_LINK_STATUS
  | GL_FLOAT | GL_UNSIGNED_INT | GL_TRIANGLES | GL_COLOR_BUFFER_BIT

datatype glfw_hint = GLFW_CONTEXT_VERSION_MAJOR | GLFW_CONTEXT_VERSION_MINOR | GLFW_OPENGL_PROFILE

datatype hint_value = HintInt int | GLFW_OPENGL_CORE_PROFILE

datatype glfw_key = GLFW_KEY_ESCAPE

datatype key_action = GLFW_RELEASE | GLFW_PRESS

datatype buffer_data = FloatData "GLfloat list" | UIntData "32 word list"

text \<open>Every call the program makes into GLFW and OpenGL, with its arguments.\<close>

datatype api_call =
    GlfwInit
  | GlfwWindowHint glfw_hint hint_value
  | GlfwCreateWindow int int string
  | GlfwTerminate
  | GlfwSetFramebufferSizeCallback
  | GlfwMakeContextCurrent
  | GladLoadGL
  | GlfwGetKey glfw_key
  | GlfwSetWindowShouldClose bool
  | GlfwWindowShouldClose
  | GlfwSwapBuffers
  | GlfwPollEvents
  | GlViewport int int int int
  | GlGenVertexArrays int
  | GlBindVertexArray GLuint
  | GlGenBuffers int
  | GlBindBuffer gl_const GLuint
  | GlBufferData gl_const int buffer_data gl_const
  | GlCreateShader gl_const
  | GlShaderSource GLuint string
  | GlCompileShader GLuint
  | GlGetShaderiv GLuint gl_const
  | GlGetShaderInfoLog GLuint int
  | GlCreateProgram
  | GlAttachShader GLuint GLuint
  | GlLinkProgram GLuint
  | GlGetProgramiv GLuint gl_const
  | GlGetProgramInfoLog GLuint int
  | GlDeleteShader GLuint
  | GlGetAttribLocation GLuint string
  | GlVertexAttribPointer GLuint int gl_const bool int int
  | GlEnableVertexAttribArray GLuint
  | GlClearColor GLfloat GLfloat GLfloat GLfloat
  | GlClear gl_const
  | GlUseProgram GLuint
  | GlDrawElements gl_const int gl_const int
  | GlDeleteVertexArrays "GLuint list"
  | GlDeleteBuffers "GLuint list"
  | GlDeleteProgram GLuint

text \<open>Window events that GLFW hands to the program while it polls.\<close>

datatype window_event = FramebufferSize int int | WindowCloseRequest

record frame_env =
  escape_key :: key_action
  events :: "window_event list"

text \<open>
  \<open>compiler\<close> is the driver's shader compiler: for a stage and a source text, whether
  the compilation succeeded, and the information log. \<open>linker\<close> is the outcome of
  linking the program. \<open>frames\<close> holds, for each iteration of the render loop that the
  run is observed for, the state of the Escape key when \<^verbatim>\<open>processInput\<close> asks for it
  and the events delivered by \<^verbatim>\<open>glfwPollEvents\<close>.
\<close>

record env =
  window_ok :: bool
  compiler :: "gl_const \<Rightarrow> string \<Rightarrow> bool \<times> string"
  linker :: "bool \<times> string"
  frames :: "frame_env list"

record shader_obj =
  sh_stage :: gl_const
  sh_source :: string
  sh_compiled :: bool
  sh_log :: string

text \<open>How a vertex attribute is read from a buffer, and from which buffer.\<close>

record vertex_attrib =
  a_size :: int
  a_type :: gl_const
  a_normalized :: bool
  a_stride :: int
  a_offset :: int
  a_buffer :: GLuint

text \<open>
  What a draw call is issued against: the state it reads. The vertex shader of the
  program reads attribute 0 only.
\<close>

record draw_record =
  d_program :: GLuint
  d_vao :: GLuint
  d_viewport :: "(int \<times> int \<times> int \<times> int) option"
  d_attrib0 :: "vertex_attrib option"
  d_attrib0_enabled :: bool
  d_element_buffer :: GLuint

record world =
  calls :: "api_call list"
  out :: string
  should_close :: bool
  size_callback :: bool
  viewport :: "(int \<times> int \<times> int \<times> int) option"
  clear_color :: "GLfloat \<times> GLfloat \<times> GLfloat \<times> GLfloat"
  current_program :: GLuint
  vertex_array_binding :: GLuint
  array_buffer_binding :: GLuint
  element_binding :: "GLuint \<Rightarrow> GLuint"
  attrib_format :: "GLuint \<times> GLuint \<rightharpoonup> vertex_attrib"
  attrib_enabled :: "GLuint \<times> GLuint \<Rightarrow> bool"
  buffer_store :: "GLuint \<rightharpoonup> buffer_data"
  shaders :: "GLuint \<rightharpoonup> shader_obj"
  link_result :: "bool \<times> string"
  last_vertex_array :: GLuint
  last_buffer :: GLuint
  last_object :: GLuint
  drawn :: "draw_record list"

definition world0 :: world where
  "world0 = \<lparr> calls = [], out = [], should_close = False, size_callback = False,
      viewport = None, clear_color = (0, 0, 0, 0), current_program = 0,
      vertex_array_binding = 0, array_buffer_binding = 0, element_binding = (\<lambda>a. 0),
      attrib_format = Map.empty, attrib_enabled = (\<lambda>k. False),
      buffer_store = Map.empty, shaders = Map.empty, link_result = (False, []),
      last_vertex_array = 0, last_buffer = 0, last_object = 0, drawn = [] \<rparr>"

subsection \<open>The library calls\<close>

text \<open>
  Each library function records its call and has the effect its documentation gives it
  on the state above. Names are handed out in order, starting from 1, one sequence for
  vertex arrays, one for buffers, one for shader and program objects. The binding of
  the element array buffer and the vertex attributes belong to the vertex array that is
  bound.
\<close>

definition call :: "api_call \<Rightarrow> world \<Rightarrow> world" where
  "call c st = st\<lparr>calls := calls st @ [c]\<rparr>"

definition cout :: "string \<Rightarrow> world \<Rightarrow> world" where
  "cout s st = st\<lparr>out := out st @ s\<rparr>"

definition endl :: string where
  "endl = [CHR 0x0A]"

definition c_str :: "string \<Rightarrow> string" where
  "c_str s = takeWhile (\<lambda>c. c \<noteq> CHR 0x00) s"

definition glfwInit :: "world \<Rightarrow> world" where
  "glfwInit st = call GlfwInit st"

definition glfwWindowHint :: "glfw_hint \<Rightarrow> hint_value \<Rightarrow> world \<Rightarrow> world" where
  "glfwWindowHint h v st = call (GlfwWindowHint h v) st"

definition glfwCreateWindow :: "env \<Rightarrow> int \<Rightarrow> int \<Rightarrow> string \<Rightarrow> world \<Rightarrow> bool \<times> world" where
  "glfwCreateWindow e w h title st = (window_ok e, call (GlfwCreateWindow w h title) st)"

definition glfwTerminate :: "world \<Rightarrow> world" where
  "glfwTerminate st = call GlfwTerminate st"

definition glfwSetFramebufferSizeCallback :: "world \<Rightarrow> world" where
  "glfwSetFramebufferSizeCallback st = (call GlfwSetFramebufferSizeCallback st)\<lparr>size_callback := True\<rparr>"

definition glfwMakeContextCurrent :: "world \<Rightarrow> world" where
  "glfwMakeContextCurrent st = call GlfwMakeContextCurrent st"

definition gladLoadGL :: "world \<Rightarrow> world" where
  "gladLoadGL st = call GladLoadGL st"

definition glfwGetKey :: "frame_env \<Rightarrow> glfw_key \<Rightarrow> world \<Rightarrow> key_action \<times> world" where
  "glfwGetKey fe k st = (escape_key fe, call (GlfwGetKey k) st)"

definition glfwSetWindowShouldClose :: "bool \<Rightarrow> world \<Rightarrow> world" where
  "glfwSetWindowShouldClose b st = (call (GlfwSetWindowShouldClose b) st)\<lparr>should_close := b\<rparr>"

definition glfwWindowShouldClose :: "world \<Rightarrow> bool \<times> world" where
  "glfwWindowShouldClose st = (should_close st, call GlfwWindowShouldClose st)"

definition glfwSwapBuffers :: "world \<Rightarrow> world" where
  "glfwSwapBuffers st = call GlfwSwapBuffers st"

text \<open>A negative width or height is an error of \<^verbatim>\<open>glViewport\<close> and leaves the viewport as it was.\<close>

definition glViewport :: "int \<Rightarrow> int \<Rightarrow> int \<Rightarrow> int \<Rightarrow> world \<Rightarrow> world" where
  "glViewport x y w h st =
     (call (GlViewport x y w h) st)
       \<lparr>viewport := (if w < 0 \<or> h < 0 then viewport st else Some (x, y, w, h))\<rparr>"

definition glGenVertexArrays1 :: "world \<Rightarrow> GLuint \<times> world" where
  "glGenVertexArrays1 st =
     (last_vertex_array st + 1,
      (call (GlGenVertexArrays 1) st)\<lparr>last_vertex_array := last_vertex_array st + 1\<rparr>)"

definition glBindVertexArray :: "GLuint \<Rightarrow> world \<Rightarrow> world" where
  "glBindVertexArray a st = (call (GlBindVertexArray a) st)\<lparr>vertex_array_binding := a\<rparr>"

definition glGenBuffers1 :: "world \<Rightarrow> GLuint \<times> world" where
  "glGenBuffers1 st =
     (last_buffer st + 1, (call (GlGenBuffers 1) st)\<lparr>last_buffer := last_buffer st + 1\<rparr>)"

definition glBindBuffer :: "gl_const \<Rightarrow> GLuint \<Rightarrow> world \<Rightarrow> world" where
  "glBindBuffer target b st =
     (call (GlBindBuffer target b) st)
       \<lparr>array_buffer_binding := (if target = GL_ARRAY_BUFFER then b else array_buffer_binding st),
        element_binding :=
          (if target = GL_ELEMENT_ARRAY_BUFFER then (element_binding st)(vertex_array_binding st := b)
           else element_binding st)\<rparr>"

definition bound_buffer :: "gl_const \<Rightarrow> world \<Rightarrow> GLuint" where
  "bound_buffer target st =
     (if target = GL_ARRAY_BUFFER then array_buffer_binding st
      else if target = GL_ELEMENT_ARRAY_BUFFER then element_binding st (vertex_array_binding st)
      else 0)"

text \<open>The data goes to the buffer bound to the target; with no buffer bound, the call is an error.\<close>

definition glBufferData :: "gl_const \<Rightarrow> int \<Rightarrow> buffer_data \<Rightarrow> gl_const \<Rightarrow> world \<Rightarrow> world" where
  "glBufferData target sz d usage st =
     (call (GlBufferData target sz d usage) st)
       \<lparr>buffer_store :=
          (if bound_buffer target st = 0 then buffer_store st
           else (buffer_store st)(bound_buffer target st \<mapsto> d))\<rparr>"

definition glCreateShader :: "gl_const \<Rightarrow> world \<Rightarrow> GLuint \<times> world" where
  "glCreateShader stage st =
     (last_object st + 1,
      (call (GlCreateShader stage) st)
        \<lparr>shaders := (shaders st)(last_object st + 1 \<mapsto>
           \<lparr>sh_stage = stage, sh_source = [], sh_compiled = False, sh_log = []\<rparr>),
         last_object := last_object st + 1\<rparr>)"

text \<open>The program passes no length, so the source is read up to its first NUL.\<close>

definition glShaderSource :: "GLuint \<Rightarrow> string \<Rightarrow> world \<Rightarrow> world" where
  "glShaderSource s src st =
     (call (GlShaderSource s (c_str src)) st)
       \<lparr>shaders :=
          (case shaders st s of
             None \<Rightarrow> shaders st
           | Some sh \<Rightarrow> (shaders st)(s \<mapsto> sh\<lparr>sh_source := c_str src\<rparr>))\<rparr>"

definition glCompileShader :: "env \<Rightarrow> GLuint \<Rightarrow> world \<Rightarrow> world" where
  "glCompileShader e s st =
     (call (GlCompileShader s) st)
       \<lparr>shaders :=
          (case shaders st s of
             None \<Rightarrow> shaders st
           | Some sh \<Rightarrow>
               (shaders st)(s \<mapsto>
                  sh\<lparr>sh_compiled := fst (compiler e (sh_stage sh) (sh_source sh)),
                     sh_log := snd (compiler e (sh_stage sh) (sh_source sh))\<rparr>))\<rparr>"

text \<open>The status is written as \<^verbatim>\<open>GL_TRUE\<close> (1) or \<^verbatim>\<open>GL_FALSE\<close> (0).\<close>

definition glGetShaderiv_COMPILE_STATUS :: "GLuint \<Rightarrow> world \<Rightarrow> int \<times> world" where
  "glGetShaderiv_COMPILE_STATUS s st =
     ((case shaders st s of None \<Rightarrow> 0 | Some sh \<Rightarrow> if sh_compiled sh then 1 else 0),
      call (GlGetShaderiv s GL_COMPILE_STATUS) st)"

text \<open>At most \<open>bufSize - 1\<close> characters of the log are written, and a NUL after them.\<close>

definition glGetShaderInfoLog :: "GLuint \<Rightarrow> nat \<Rightarrow> world \<Rightarrow> string \<times> world" where
  "glGetShaderInfoLog s bufSize st =
     (take (bufSize - 1) (case shaders st s of None \<Rightarrow> [] | Some sh \<Rightarrow> sh_log sh) @ [CHR 0x00],
      call (GlGetShaderInfoLog s (int bufSize)) st)"

definition glCreateProgram :: "world \<Rightarrow> GLuint \<times> world" where
  "glCreateProgram st =
     (last_object st + 1, (call GlCreateProgram st)\<lparr>last_object := last_object st + 1\<rparr>)"

definition glAttachShader :: "GLuint \<Rightarrow> GLuint \<Rightarrow> world \<Rightarrow> world" where
  "glAttachShader p s st = call (GlAttachShader p s) st"

definition glLinkProgram :: "env \<Rightarrow> GLuint \<Rightarrow> world \<Rightarrow> world" where
  "glLinkProgram e p st = (call (GlLinkProgram p) st)\<lparr>link_result := linker e\<rparr>"

definition glGetProgramiv_LINK_STATUS :: "GLuint \<Rightarrow> world \<Rightarrow> int \<times> world" where
  "glGetProgramiv_LINK_STATUS p st =
     ((if fst (link_result st) then 1 else 0), call (GlGetProgramiv p GL_LINK_STATUS) st)"

definition glGetProgramInfoLog :: "GLuint \<Rightarrow> nat \<Rightarrow> world \<Rightarrow> string \<times> world" where
  "glGetProgramInfoLog p bufSize st =
     (take (bufSize - 1) (snd (link_result st)) @ [CHR 0x00],
      call (GlGetProgramInfoLog p (int bufSize)) st)"

definition glDeleteShader :: "GLuint \<Rightarrow> world \<Rightarrow> world" where
  "glDeleteShader s st = call (GlDeleteShader s) st"

definition glGetAttribLocation :: "GLuint \<Rightarrow> string \<Rightarrow> world \<Rightarrow> world" where
  "glGetAttribLocation p name st = call (GlGetAttribLocation p name) st"

text \<open>
  The attribute is stored in the bound vertex array, with the buffer bound to
  \<^verbatim>\<open>GL_ARRAY_BUFFER\<close> as its source. In the core profile the call is an error when no
  vertex array is bound.
\<close>

definition glVertexAttribPointer :: "GLuint \<Rightarrow> int \<Rightarrow> gl_const \<Rightarrow> bool \<Rightarrow> int \<Rightarrow> int \<Rightarrow> world \<Rightarrow> world" where
  "glVertexAttribPointer i sz ty normalized stride offset st =
     (call (GlVertexAttribPointer i sz ty normalized stride offset) st)
       \<lparr>attrib_format :=
          (if vertex_array_binding st = 0 then attrib_format st
           else (attrib_format st)((vertex_array_binding st, i) \<mapsto>
                  \<lparr>a_size = sz, a_type = ty, a_normalized = normalized, a_stride = stride,
                   a_offset = offset, a_buffer = array_buffer_binding st\<rparr>))\<rparr>"

definition glEnableVertexAttribArray :: "GLuint \<Rightarrow> world \<Rightarrow> world" where
  "glEnableVertexAttribArray i st =
     (call (GlEnableVertexAttribArray i) st)
       \<lparr>attrib_enabled :=
          (if vertex_array_binding st = 0 then attrib_enabled st
           else (attrib_enabled st)((vertex_array_binding st, i) := True))\<rparr>"

definition glClearColor :: "GLfloat \<Rightarrow> GLfloat \<Rightarrow> GLfloat \<Rightarrow> GLfloat \<Rightarrow> world \<Rightarrow> world" where
  "glClearColor r g b a st = (call (GlClearColor r g b a) st)\<lparr>clear_color := (r, g, b, a)\<rparr>"

definition glClear :: "gl_const \<Rightarrow> world \<Rightarrow> world" where
  "glClear bits st = call (GlClear bits) st"

definition glUseProgram :: "GLuint \<Rightarrow> world \<Rightarrow> world" where
  "glUseProgram p st = (call (GlUseProgram p) st)\<lparr>current_program := p\<rparr>"

definition glDrawElements :: "gl_const \<Rightarrow> int \<Rightarrow> gl_const \<Rightarrow> int \<Rightarrow> world \<Rightarrow> world" where
  "glDrawElements mode n ty offset st =
     (call (GlDrawElements mode n ty offset) st)
       \<lparr>drawn := drawn st @
          [\<lparr>d_program = current_program st, d_vao = vertex_array_binding st,
            d_viewport = viewport st,
            d_attrib0 = attrib_format st (vertex_array_binding st, 0),
            d_attrib0_enabled = attrib_enabled st (vertex_array_binding st, 0),
            d_element_buffer = element_binding st (vertex_array_binding st)\<rparr>]\<rparr>"

definition glDeleteVertexArrays1 :: "GLuint \<Rightarrow> world \<Rightarrow> world" where
  "glDeleteVertexArrays1 a st = call (GlDeleteVertexArrays [a]) st"

definition glDeleteBuffers1 :: "GLuint \<Rightarrow> world \<Rightarrow> world" where
  "glDeleteBuffers1 b st = (call (GlDeleteBuffers [b]) st)\<lparr>buffer_store := (buffer_store st)(b := None)\<rparr>"

definition glDeleteProgram :: "GLuint \<Rightarrow> world \<Rightarrow> world" where
  "glDeleteProgram p st = call (GlDeleteProgram p) st"

subsection \<open>The program\<close>

text \<open>\<^verbatim>\<open>processInput\<close>, lines 6 to 10.\<close>

definition processInput :: "frame_env \<Rightarrow> world \<Rightarrow> world" where
  "processInput fe st =
     (let (k, st) = glfwGetKey fe GLFW_KEY_ESCAPE st
      in if k = GLFW_PRESS then glfwSetWindowShouldClose True st else st)"

text \<open>\<^verbatim>\<open>frameBufferSize_callback\<close>, lines 12 to 14.\<close>

definition frameBufferSize_callback :: "int \<Rightarrow> int \<Rightarrow> world \<Rightarrow> world" where
  "frameBufferSize_callback width height st = glViewport 0 0 width height st"

text \<open>
  \<^verbatim>\<open>glfwPollEvents\<close> hands each pending event to the program: a framebuffer size to the
  callback, if one is registered; a close request sets the close flag of the window.
\<close>

definition dispatch :: "window_event \<Rightarrow> world \<Rightarrow> world" where
  "dispatch ev st =
     (case ev of
        FramebufferSize w h \<Rightarrow> if size_callback st then frameBufferSize_callback w h st else st
      | WindowCloseRequest \<Rightarrow> st\<lparr>should_close := True\<rparr>)"

definition glfwPollEvents :: "frame_env \<Rightarrow> world \<Rightarrow> world" where
  "glfwPollEvents fe st = fold dispatch (events fe) (call GlfwPollEvents st)"

text \<open>The global arrays, lines 16 to 25.\<close>

definition triangleVertices :: "GLfloat list" where
  "triangleVertices =
     [ 0.5,  0.5, 0.0,
       0.5, -0.5, 0.0,
      -0.5, -0.5, 0.0,
      -0.5,  0.5, 0.0]"

definition indices :: "32 word list" where
  "indices =
     [0, 1, 3,
      1, 2, 3]"

definition sizeof_float :: int where
  "sizeof_float = 4"

definition sizeof_unsigned_int :: int where
  "sizeof_unsigned_int = 4"

text \<open>\<^verbatim>\<open>checkIfShaderRunSucessfully\<close>, lines 27 to 37.\<close>

definition checkIfShaderRunSucessfully :: "GLuint \<Rightarrow> world \<Rightarrow> world" where
  "checkIfShaderRunSucessfully shader st =
     (let (success, st) = glGetShaderiv_COMPILE_STATUS shader st
      in if success = 0 then
           (let (infoLog, st) = glGetShaderInfoLog shader 512 st;
                st = cout ''ERROR::SHADER::VERTEX::COMPILATION_FAILED\<newline>'' st;
                st = cout (c_str infoLog) st
            in cout endl st)
         else st)"

text \<open>\<^verbatim>\<open>checkIfProgramWasCreatedSucessfully\<close>, lines 39 to 49.\<close>

definition checkIfProgramWasCreatedSucessfully :: "GLuint \<Rightarrow> world \<Rightarrow> world" where
  "checkIfProgramWasCreatedSucessfully prog st =
     (let (success, st) = glGetProgramiv_LINK_STATUS prog st
      in if success = 0 then
           (let (infoLog, st) = glGetProgramInfoLog prog 512 st;
                st = cout ''\<newline>(Shader PROGRAM Error.) '' st;
                st = cout ''ERROR::SHADER::VERTEX::COMPILATION_FAILED\<newline>'' st;
                st = cout (c_str infoLog) st
            in cout endl st)
         else st)"

text \<open>\<^verbatim>\<open>createVertexShader\<close>, lines 52 to 65.\<close>

definition vertexSource :: string where
  "vertexSource =
     ''#version 330 core\<newline>'' @
     ''layout (location = 0) in vec3 aPos;\<newline>'' @
     ''void main()\<newline>'' @
     ''{\<newline>'' @
     ''   gl_Position = vec4(aPos, 1.0);\<newline>'' @
     ''}'' @ [CHR 0x00]"

definition createVertexShader :: "env \<Rightarrow> GLuint \<Rightarrow> world \<Rightarrow> world" where
  "createVertexShader e vertexShader st =
     (let st = glShaderSource vertexShader vertexSource st;
          st = glCompileShader e vertexShader st
      in checkIfShaderRunSucessfully vertexShader st)"

text \<open>\<^verbatim>\<open>createFragmentShader\<close>, lines 67 to 80.\<close>

definition vertexShaderSource :: string where
  "vertexShaderSource =
     ''#version 330 core\<newline>'' @
     ''out vec4 FragColor;\<newline>'' @
     ''void main()\<newline>'' @
     ''{\<newline>'' @
     ''   FragColor = vec4(1.0f, 0.5f, 0.2f, 1.0f);\<newline>'' @
     ''}'' @ [CHR 0x00]"

definition createFragmentShader :: "env \<Rightarrow> GLuint \<Rightarrow> world \<Rightarrow> world" where
  "createFragmentShader e fragmentShader st =
     (let st = glShaderSource fragmentShader vertexShaderSource st;
          st = glCompileShader e fragmentShader st
      in checkIfShaderRunSucessfully fragmentShader st)"

text \<open>
  \<^verbatim>\<open>main\<close>, lines 83 to 198, in five parts: the creation of the window (lines 84 to
  90), the resources it sets up once the window exists (lines 98 to 171), the body of
  the render loop (lines 175 to 189), the loop (line 174) and the release of the
  resources (lines 192 to 196).
\<close>

definition WIDTH :: int where
  "WIDTH = 800"

definition HEIGHT :: int where
  "HEIGHT = 600"

definition main_start :: "env \<Rightarrow> bool \<times> world" where
  "main_start e =
     (let st = glfwInit world0;
          st = glfwWindowHint GLFW_CONTEXT_VERSION_MAJOR (HintInt 3) st;
          st = glfwWindowHint GLFW_CONTEXT_VERSION_MINOR (HintInt 3) st;
          st = glfwWindowHint GLFW_OPENGL_PROFILE GLFW_OPENGL_CORE_PROFILE st
      in glfwCreateWindow e WIDTH HEIGHT ''Aprendendo OpenGL/GLFW'' st)"

record handles =
  VAO :: GLuint
  VBO :: GLuint
  EBO :: GLuint
  shaderProgram :: GLuint

definition main_setup :: "env \<Rightarrow> world \<Rightarrow> handles \<times> world" where
  "main_setup e st =
     (let st = glfwSetFramebufferSizeCallback st;
          st = glfwMakeContextCurrent st;
          st = gladLoadGL st;
          (vao, st) = glGenVertexArrays1 st;
          st = glBindVertexArray vao st;
          (vbo, st) = glGenBuffers1 st;
          st = glBindBuffer GL_ARRAY_BUFFER vbo st;
          st = glBufferData GL_ARRAY_BUFFER (int (length triangleVertices) * sizeof_float)
                 (FloatData triangleVertices) GL_STATIC_DRAW st;
          (ebo, st) = glGenBuffers1 st;
          st = glBindBuffer GL_ELEMENT_ARRAY_BUFFER ebo st;
          st = glBufferData GL_ELEMENT_ARRAY_BUFFER (int (length indices) * sizeof_unsigned_int)
                 (UIntData indices) GL_STATIC_DRAW st;
          (vertexShader, st) = glCreateShader GL_VERTEX_SHADER st;
          (fragmentShader, st) = glCreateShader GL_FRAGMENT_SHADER st;
          st = createVertexShader e vertexShader st;
          st = createFragmentShader e fragmentShader st;
          (prog, st) = glCreateProgram st;
          st = glAttachShader prog vertexShader st;
          st = glAttachShader prog fragmentShader st;
          st = glLinkProgram e prog st;
          st = checkIfProgramWasCreatedSucessfully prog st;
          st = glDeleteShader vertexShader st;
          st = glDeleteShader fragmentShader st;
          st = glGetAttribLocation prog ''aPos'' st;
          st = glVertexAttribPointer 0 3 GL_FLOAT False (3 * sizeof_float) 0 st;
          st = glEnableVertexAttribArray 0 st
      in (\<lparr>VAO = vao, VBO = vbo, EBO = ebo, shaderProgram = prog\<rparr>, st))"

text \<open>The clear and the draw of one frame, lines 177 to 186.\<close>

definition main_render :: "handles \<Rightarrow> world \<Rightarrow> world" where
  "main_render hs st =
     (let st = glClearColor 0.2 0.3 0.3 1.0 st;
          st = glClear GL_COLOR_BUFFER_BIT st;
          st = glUseProgram (shaderProgram hs) st;
          st = glBindVertexArray (VAO hs) st;
          st = glDrawElements GL_TRIANGLES 6 GL_UNSIGNED_INT 0 st
      in glBindVertexArray 0 st)"

definition loop_body :: "handles \<Rightarrow> frame_env \<Rightarrow> world \<Rightarrow> world" where
  "loop_body hs fe st =
     (let st = processInput fe st;
          st = main_render hs st;
          st = glfwSwapBuffers st
      in glfwPollEvents fe st)"

text \<open>
  The loop runs as long as the window is not asked to close. It takes the inputs of one
  frame from the list for each iteration; \<open>None\<close> says that the loop is still running
  when the list is used up.
\<close>

fun main_loop :: "handles \<Rightarrow> frame_env list \<Rightarrow> world \<Rightarrow> world option" where
  "main_loop hs [] st =
     (let (c, st) = glfwWindowShouldClose st in if c then Some st else None)"
| "main_loop hs (fe # fes) st =
     (let (c, st) = glfwWindowShouldClose st
      in if c then Some st else main_loop hs fes (loop_body hs fe st))"

definition main_shutdown :: "handles \<Rightarrow> world \<Rightarrow> world" where
  "main_shutdown hs st =
     (let st = glDeleteVertexArrays1 (VAO hs) st;
          st = glDeleteBuffers1 (VBO hs) st;
          st = glDeleteBuffers1 (EBO hs) st;
          st = glDeleteProgram (shaderProgram hs) st
      in glfwTerminate st)"

text \<open>
  The result is the value \<^verbatim>\<open>main\<close> returns and the world it leaves; the window is
  \<open>False\<close> when \<^verbatim>\<open>glfwCreateWindow\<close> returned \<^verbatim>\<open>NULL\<close>.
\<close>

definition main_prog :: "env \<Rightarrow> (int \<times> world) option" where
  "main_prog e =
     (let (window, st) = main_start e
      in if \<not> window then
           (let st = cout ''Failed to create GLFW window'' st;
                st = cout endl st;
                st = glfwTerminate st
            in Some (- 1, st))
         else
           (let (hs, st) = main_setup e st
            in case main_loop hs (frames e) st of
                 None \<Rightarrow> None
               | Some st \<Rightarrow> Some (0, main_shutdown hs st)))"

subsection \<open>Reading a trace and a buffer\<close>

definition is_creation :: "api_call \<Rightarrow> bool" where
  "is_creation c =
     (case c of GlGenVertexArrays n \<Rightarrow> True | GlGenBuffers n \<Rightarrow> True
      | GlCreateShader s \<Rightarrow> True | GlCreateProgram \<Rightarrow> True | _ \<Rightarrow> False)"

definition is_release :: "api_call \<Rightarrow> bool" where
  "is_release c =
     (case c of GlDeleteVertexArrays a \<Rightarrow> True | GlDeleteBuffers b \<Rightarrow> True
      | GlDeleteShader s \<Rightarrow> True | GlDeleteProgram p \<Rightarrow> True | _ \<Rightarrow> False)"

definition is_viewport :: "api_call \<Rightarrow> bool" where
  "is_viewport c = (case c of GlViewport x y w h \<Rightarrow> True | _ \<Rightarrow> False)"

definition is_create_window :: "api_call \<Rightarrow> bool" where
  "is_create_window c = (case c of GlfwCreateWindow w h t \<Rightarrow> True | _ \<Rightarrow> False)"

text \<open>The calls into OpenGL that the render loop makes itself, outside the resize callback.\<close>

definition is_render_call :: "api_call \<Rightarrow> bool" where
  "is_render_call c =
     (case c of GlfwInit \<Rightarrow> False | GlfwWindowHint h v \<Rightarrow> False | GlfwCreateWindow w h t \<Rightarrow> False
      | GlfwTerminate \<Rightarrow> False | GlfwSetFramebufferSizeCallback \<Rightarrow> False
      | GlfwMakeContextCurrent \<Rightarrow> False | GladLoadGL \<Rightarrow> False | GlfwGetKey k \<Rightarrow> False
      | GlfwSetWindowShouldClose b \<Rightarrow> False | GlfwWindowShouldClose \<Rightarrow> False
      | GlfwSwapBuffers \<Rightarrow> False | GlfwPollEvents \<Rightarrow> False | GlViewport x y w h \<Rightarrow> False
      | _ \<Rightarrow> True)"

text \<open>
  \<open>group3\<close> cuts a list into triples: the vertices that an attribute of three tightly
  packed components reads from a buffer, and the triangles that \<^verbatim>\<open>GL_TRIANGLES\<close>
  assembles from a list of indices.
\<close>

fun group3 :: "'a list \<Rightarrow> ('a \<times> 'a \<times> 'a) list" where
  "group3 (x # y # z # r) = (x, y, z) # group3 r"
| "group3 r = []"

definition is_buffer_data :: "api_call \<Rightarrow> bool" where
  "is_buffer_data c = (case c of GlBufferData t n d u \<Rightarrow> True | _ \<Rightarrow> False)"

definition is_draw :: "api_call \<Rightarrow> bool" where
  "is_draw c = (case c of GlDrawElements m n t offset \<Rightarrow> True | _ \<Rightarrow> False)"

text \<open>The handles and the world with which \<^verbatim>\<open>main\<close> enters its loop, once the window exists.\<close>

definition loop_entry :: "env \<Rightarrow> handles \<times> world" where
  "loop_entry e = main_setup e (snd (main_start e))"

definition render_calls :: "handles \<Rightarrow> api_call list" where
  "render_calls hs =
     [GlClearColor 0.2 0.3 0.3 1.0, GlClear GL_COLOR_BUFFER_BIT,
      GlUseProgram (shaderProgram hs), GlBindVertexArray (VAO hs),
      GlDrawElements GL_TRIANGLES 6 GL_UNSIGNED_INT 0, GlBindVertexArray 0]"

text \<open>The calls that an iteration of the loop can make.\<close>

definition loop_call :: "handles \<Rightarrow> api_call \<Rightarrow> bool" where
  "loop_call hs c =
     (c \<in> set (render_calls hs) \<or>
      c \<in> set [GlfwWindowShouldClose, GlfwGetKey GLFW_KEY_ESCAPE, GlfwSetWindowShouldClose True,
                 GlfwSwapBuffers, GlfwPollEvents] \<or>
      is_viewport c)"

definition is_swap :: "api_call \<Rightarrow> bool" where
  "is_swap c = (case c of GlfwSwapBuffers \<Rightarrow> True | _ \<Rightarrow> False)"

text \<open>A frame whose inputs ask the window to close: the Escape key, or a close request.\<close>

definition closes :: "frame_env \<Rightarrow> bool" where
  "closes fe = (escape_key fe = GLFW_PRESS \<or> WindowCloseRequest \<in> set (events fe))"

definition creation_calls :: "env \<Rightarrow> api_call list option" where
  "creation_calls e =
     (case main_prog e of None \<Rightarrow> None | Some (code, st) \<Rightarrow> Some (filter is_creation (calls st)))"

definition creation_count :: "env \<Rightarrow> nat option" where
  "creation_count e = (case creation_calls e of None \<Rightarrow> None | Some cs \<Rightarrow> Some (length cs))"

text \<open>Every draw of the loop reads the program, the vertex array and the attribute of the handles.\<close>

definition draw_reads :: "handles \<Rightarrow> world \<Rightarrow> draw_record \<Rightarrow> bool" where
  "draw_reads hs st d =
     (d_program d = shaderProgram hs \<and> d_vao d = VAO hs \<and>
      d_attrib0 d = attrib_format st (VAO hs, 0) \<and>
      d_attrib0_enabled d = attrib_enabled st (VAO hs, 0) \<and>
      d_element_buffer d = element_binding st (VAO hs))"

subsection \<open>Inputs used as examples\<close>

definition driver_ok :: "gl_const \<Rightarrow> string \<Rightarrow> bool \<times> string" where
  "driver_ok stage src = (True, [])"

definition frame_escape :: frame_env where
  "frame_escape = \<lparr>escape_key = GLFW_PRESS, events = []\<rparr>"

definition frame_resize :: frame_env where
  "frame_resize = \<lparr>escape_key = GLFW_RELEASE, events = [FramebufferSize 640 480]\<rparr>"

definition env_escape :: env where
  "env_escape = \<lparr>window_ok = True, compiler = driver_ok, linker = (True, []),
                 frames = [frame_escape]\<rparr>"

definition env_no_window :: env where
  "env_no_window = \<lparr>window_ok = False, compiler = driver_ok, linker = (True, []), frames = []\<rparr>"

definition env_fragment_fails :: env where
  "env_fragment_fails =
     \<lparr>window_ok = True,
      compiler = (\<lambda>stage src. if stage = GL_FRAGMENT_SHADER
                    then (False, ''0(1) : error C0000: syntax error'') else (True, [])),
      linker = (False, ''link failed''),
      frames = [frame_escape]\<rparr>"

definition frame_close :: frame_env where
  "frame_close = \<lparr>escape_key = GLFW_RELEASE, events = [WindowCloseRequest]\<rparr>"

definition env_close_button :: env where
  "env_close_button = \<lparr>window_ok = True, compiler = driver_ok, linker = (True, []),
                       frames = [frame_resize, frame_close]\<rparr>"

definition env_running :: env where
  "env_running = \<lparr>window_ok = True, compiler = driver_ok, linker = (True, []),
                   frames = [frame_resize]\<rparr>"

definition handles0 :: handles where
  "handles0 = \<lparr>VAO = 1, VBO = 1, EBO = 2, shaderProgram = 3\<rparr>"

text \<open>The world in which the run of \<open>env_escape\<close> ends.\<close>

definition world_escape :: world where
  "world_escape =
     main_shutdown handles0
       (call GlfwWindowShouldClose
         (loop_body handles0 frame_escape (call GlfwWindowShouldClose (snd (loop_entry env_escape)))))"

section \<open>Lemmas\<close>

subsection \<open>Closed forms of the functions\<close>

lemmas step_defs = call_def glfwInit_def glfwWindowHint_def glfwCreateWindow_def
  glfwTerminate_def glfwSetFramebufferSizeCallback_def glfwMakeContextCurrent_def gladLoadGL_def
  glfwGetKey_def glfwSetWindowShouldClose_def glfwWindowShouldClose_def glfwSwapBuffers_def
  glViewport_def glGenVertexArrays1_def glBindVertexArray_def glGenBuffers1_def glBindBuffer_def
  bound_buffer_def glBufferData_def glCreateShader_def glShaderSource_def glCompileShader_def
  glCreateProgram_def glAttachShader_def glLinkProgram_def glDeleteShader_def
  glGetAttribLocation_def glVertexAttribPointer_def glEnableVertexAttribArray_def glClearColor_def
  glClear_def glUseProgram_def glDrawElements_def glDeleteVertexArrays1_def glDeleteBuffers1_def
  glDeleteProgram_def

lemma checkIfShaderRunSucessfully_eq:
  "checkIfShaderRunSucessfully s st =
     st\<lparr>calls := calls st @ GlGetShaderiv s GL_COMPILE_STATUS #
                (if (case shaders st s of None \<Rightarrow> False | Some sh \<Rightarrow> sh_compiled sh) then []
                 else [GlGetShaderInfoLog s 512]),
        out := out st @
                (if (case shaders st s of None \<Rightarrow> False | Some sh \<Rightarrow> sh_compiled sh) then []
                 else ''ERROR::SHADER::VERTEX::COMPILATION_FAILED\<newline>'' @
                      c_str (take 511 (case shaders st s of None \<Rightarrow> [] | Some sh \<Rightarrow> sh_log sh) @ [CHR 0x00]) @
                      endl)\<rparr>"
  by (simp add: checkIfShaderRunSucessfully_def glGetShaderiv_COMPILE_STATUS_def glGetShaderInfoLog_def
      call_def cout_def Let_def split: option.splits)

lemma checkIfProgramWasCreatedSucessfully_eq:
  "checkIfProgramWasCreatedSucessfully p st =
     st\<lparr>calls := calls st @ GlGetProgramiv p GL_LINK_STATUS #
                (if fst (link_result st) then [] else [GlGetProgramInfoLog p 512]),
        out := out st @
                (if fst (link_result st) then []
                 else ''\<newline>(Shader PROGRAM Error.) '' @
                      ''ERROR::SHADER::VERTEX::COMPILATION_FAILED\<newline>'' @
                      c_str (take 511 (snd (link_result st)) @ [CHR 0x00]) @ endl)\<rparr>"
  by (simp add: checkIfProgramWasCreatedSucessfully_def glGetProgramiv_LINK_STATUS_def glGetProgramInfoLog_def
      call_def cout_def Let_def)

lemma createVertexShader_eq:
  "createVertexShader e s st =
     st\<lparr>calls := calls st @ [GlShaderSource s (c_str vertexSource), GlCompileShader s,
              GlGetShaderiv s GL_COMPILE_STATUS] @
              (case shaders st s of
                 None \<Rightarrow> [GlGetShaderInfoLog s 512]
               | Some sh \<Rightarrow>
                   if fst (compiler e (sh_stage sh) (c_str vertexSource)) then []
                   else [GlGetShaderInfoLog s 512]),
        out := out st @
              (case shaders st s of
                 None \<Rightarrow> ''ERROR::SHADER::VERTEX::COMPILATION_FAILED\<newline>'' @ c_str [CHR 0x00] @ endl
               | Some sh \<Rightarrow>
                   if fst (compiler e (sh_stage sh) (c_str vertexSource)) then []
                   else ''ERROR::SHADER::VERTEX::COMPILATION_FAILED\<newline>'' @
                        c_str (take 511 (snd (compiler e (sh_stage sh) (c_str vertexSource))) @ [CHR 0x00]) @
                        endl),
        shaders :=
              (case shaders st s of
                 None \<Rightarrow> shaders st
               | Some sh \<Rightarrow>
                   (shaders st)(s \<mapsto>
                     sh\<lparr>sh_source := c_str vertexSource,
                        sh_compiled := fst (compiler e (sh_stage sh) (c_str vertexSource)),
                        sh_log := snd (compiler e (sh_stage sh) (c_str vertexSource))\<rparr>))\<rparr>"
  by (cases "shaders st s")
     (simp_all add: createVertexShader_def checkIfShaderRunSucessfully_eq glShaderSource_def
      glCompileShader_def call_def Let_def)

lemma createFragmentShader_eq:
  "createFragmentShader e s st =
     st\<lparr>calls := calls st @ [GlShaderSource s (c_str vertexShaderSource), GlCompileShader s,
              GlGetShaderiv s GL_COMPILE_STATUS] @
              (case shaders st s of
                 None \<Rightarrow> [GlGetShaderInfoLog s 512]
               | Some sh \<Rightarrow>
                   if fst (compiler e (sh_stage sh) (c_str vertexShaderSource)) then []
                   else [GlGetShaderInfoLog s 512]),
        out := out st @
              (case shaders st s of
                 None \<Rightarrow> ''ERROR::SHADER::VERTEX::COMPILATION_FAILED\<newline>'' @ c_str [CHR 0x00] @ endl
               | Some sh \<Rightarrow>
                   if fst (compiler e (sh_stage sh) (c_str vertexShaderSource)) then []
                   else ''ERROR::SHADER::VERTEX::COMPILATION_FAILED\<newline>'' @
                        c_str (take 511 (snd (compiler e (sh_stage sh) (c_str vertexShaderSource))) @ [CHR 0x00]) @
                        endl),
        shaders :=
              (case shaders st s of
                 None \<Rightarrow> shaders st
               | Some sh \<Rightarrow>
                   (shaders st)(s \<mapsto>
                     sh\<lparr>sh_source := c_str vertexShaderSource,
                        sh_compiled := fst (compiler e (sh_stage sh) (c_str vertexShaderSource)),
                        sh_log := snd (compiler e (sh_stage sh) (c_str vertexShaderSource))\<rparr>))\<rparr>"
  by (cases "shaders st s")
     (simp_all add: createFragmentShader_def checkIfShaderRunSucessfully_eq glShaderSource_def
      glCompileShader_def call_def Let_def)

lemma processInput_eq:
  "processInput fe st =
     st\<lparr>calls := calls st @ GlfwGetKey GLFW_KEY_ESCAPE #
                (if escape_key fe = GLFW_PRESS then [GlfwSetWindowShouldClose True] else []),
        should_close := (escape_key fe = GLFW_PRESS \<or> should_close st)\<rparr>"
  by (simp add: processInput_def glfwGetKey_def glfwSetWindowShouldClose_def call_def Let_def)

lemma frameBufferSize_callback_eq:
  "frameBufferSize_callback w h st =
     st\<lparr>calls := calls st @ [GlViewport 0 0 w h],
        viewport := (if w < 0 \<or> h < 0 then viewport st else Some (0, 0, w, h))\<rparr>"
  by (simp add: frameBufferSize_callback_def glViewport_def call_def)

lemma main_render_eq:
  "main_render hs st =
     st\<lparr>calls := calls st @ render_calls hs,
        clear_color := (0.2, 0.3, 0.3, 1.0),
        current_program := shaderProgram hs,
        vertex_array_binding := 0,
        drawn := drawn st @
          [\<lparr>d_program = shaderProgram hs, d_vao = VAO hs, d_viewport = viewport st,
            d_attrib0 = attrib_format st (VAO hs, 0),
            d_attrib0_enabled = attrib_enabled st (VAO hs, 0),
            d_element_buffer = element_binding st (VAO hs)\<rparr>]\<rparr>"
  by (simp add: main_render_def render_calls_def glClearColor_def glClear_def glUseProgram_def
      glBindVertexArray_def glDrawElements_def call_def Let_def)

lemma main_shutdown_eq:
  "main_shutdown hs st =
     st\<lparr>calls := calls st @
          [GlDeleteVertexArrays [VAO hs], GlDeleteBuffers [VBO hs], GlDeleteBuffers [EBO hs],
           GlDeleteProgram (shaderProgram hs), GlfwTerminate],
        buffer_store := (buffer_store st)(VBO hs := None, EBO hs := None)\<rparr>"
  by (simp add: main_shutdown_def glDeleteVertexArrays1_def glDeleteBuffers1_def glDeleteProgram_def
      glfwTerminate_def call_def Let_def)

subsection \<open>Events\<close>

lemma dispatch_eq:
  "dispatch ev st =
     st\<lparr>calls := calls st @
          (case ev of FramebufferSize w h \<Rightarrow> if size_callback st then [GlViewport 0 0 w h] else []
           | WindowCloseRequest \<Rightarrow> []),
        should_close := (ev = WindowCloseRequest \<or> should_close st),
        viewport :=
          (case ev of
             FramebufferSize w h \<Rightarrow>
               if size_callback st \<and> 0 \<le> w \<and> 0 \<le> h then Some (0, 0, w, h) else viewport st
           | WindowCloseRequest \<Rightarrow> viewport st)\<rparr>"
  by (cases ev) (auto simp: dispatch_def frameBufferSize_callback_eq)

lemma fold_dispatch_frame:
  "fold dispatch evs st =
     st\<lparr>calls := calls (fold dispatch evs st),
        should_close := should_close (fold dispatch evs st),
        viewport := viewport (fold dispatch evs st)\<rparr>"
proof (induction evs arbitrary: st)
  case Nil
  show ?case by simp
next
  case (Cons ev evs)
  have "fold dispatch (ev # evs) st = fold dispatch evs (dispatch ev st)" by simp
  also have "\<dots> = (dispatch ev st)\<lparr>calls := calls (fold dispatch evs (dispatch ev st)),
      should_close := should_close (fold dispatch evs (dispatch ev st)),
      viewport := viewport (fold dispatch evs (dispatch ev st))\<rparr>"
    by (rule Cons.IH)
  also have "\<dots> = st\<lparr>calls := calls (fold dispatch evs (dispatch ev st)),
      should_close := should_close (fold dispatch evs (dispatch ev st)),
      viewport := viewport (fold dispatch evs (dispatch ev st))\<rparr>"
    by (subst dispatch_eq) simp
  finally show ?case by simp
qed

lemma fold_dispatch_should_close:
  "should_close st \<Longrightarrow> should_close (fold dispatch evs st)"
  by (induction evs arbitrary: st) (simp_all add: dispatch_eq)

lemma fold_dispatch_should_close_iff:
  "should_close (fold dispatch evs st) = (WindowCloseRequest \<in> set evs \<or> should_close st)"
  by (induction evs arbitrary: st) (auto simp: dispatch_eq)

lemma fold_dispatch_calls:
  "\<exists>t. calls (fold dispatch evs st) = calls st @ t \<and> list_all is_viewport t"
proof (induction evs arbitrary: st)
  case Nil
  show ?case by simp
next
  case (Cons ev evs)
  obtain t where t: "calls (fold dispatch evs (dispatch ev st)) = calls (dispatch ev st) @ t"
    "list_all is_viewport t"
    using Cons.IH by blast
  obtain u where u: "calls (dispatch ev st) = calls st @ u" "list_all is_viewport u"
    by (cases ev) (simp_all add: dispatch_eq is_viewport_def)
  have "calls (fold dispatch (ev # evs) st) = calls st @ (u @ t)" using t u by simp
  moreover have "list_all is_viewport (u @ t)" using t u by simp
  ultimately show ?case by blast
qed

lemma glfwPollEvents_frame:
  "glfwPollEvents fe st =
     st\<lparr>calls := calls (glfwPollEvents fe st),
        should_close := should_close (glfwPollEvents fe st),
        viewport := viewport (glfwPollEvents fe st)\<rparr>"
  unfolding glfwPollEvents_def
  by (subst fold_dispatch_frame) (simp add: call_def)

lemma poll_fields:
  "drawn (glfwPollEvents fe st) = drawn st"
  "size_callback (glfwPollEvents fe st) = size_callback st"
  "attrib_format (glfwPollEvents fe st) = attrib_format st"
  "attrib_enabled (glfwPollEvents fe st) = attrib_enabled st"
  "element_binding (glfwPollEvents fe st) = element_binding st"
  "buffer_store (glfwPollEvents fe st) = buffer_store st"
  "out (glfwPollEvents fe st) = out st"
  by (subst glfwPollEvents_frame, simp)+

lemma poll_should_close:
  "should_close st \<Longrightarrow> should_close (glfwPollEvents fe st)"
  by (simp add: glfwPollEvents_def fold_dispatch_should_close call_def)

lemma poll_calls:
  "\<exists>t. calls (glfwPollEvents fe st) = calls st @ GlfwPollEvents # t \<and> list_all is_viewport t"
proof -
  obtain t where "calls (fold dispatch (events fe) (call GlfwPollEvents st)) =
      calls (call GlfwPollEvents st) @ t" "list_all is_viewport t"
    using fold_dispatch_calls by blast
  then show ?thesis by (auto simp: glfwPollEvents_def call_def)
qed

subsection \<open>One iteration\<close>

lemma loop_body_eq:
  "loop_body hs fe st = glfwPollEvents fe (glfwSwapBuffers (main_render hs (processInput fe st)))"
  by (simp add: loop_body_def Let_def)

lemma loop_body_calls:
  "\<exists>t. calls (loop_body hs fe st) = calls st @ GlfwGetKey GLFW_KEY_ESCAPE #
     (if escape_key fe = GLFW_PRESS then [GlfwSetWindowShouldClose True] else []) @
     render_calls hs @ [GlfwSwapBuffers, GlfwPollEvents] @ t \<and> list_all is_viewport t"
proof -
  let ?s = "glfwSwapBuffers (main_render hs (processInput fe st))"
  obtain t where t: "calls (glfwPollEvents fe ?s) = calls ?s @ GlfwPollEvents # t"
    "list_all is_viewport t"
    using poll_calls by blast
  have "calls ?s = calls st @ GlfwGetKey GLFW_KEY_ESCAPE #
     (if escape_key fe = GLFW_PRESS then [GlfwSetWindowShouldClose True] else []) @
     render_calls hs @ [GlfwSwapBuffers]"
    by (simp add: glfwSwapBuffers_def call_def main_render_eq processInput_eq)
  then show ?thesis using t by (auto simp: loop_body_eq)
qed

lemma loop_body_fields:
  "size_callback (loop_body hs fe st) = size_callback st"
  "attrib_format (loop_body hs fe st) = attrib_format st"
  "attrib_enabled (loop_body hs fe st) = attrib_enabled st"
  "element_binding (loop_body hs fe st) = element_binding st"
  "buffer_store (loop_body hs fe st) = buffer_store st"
  "out (loop_body hs fe st) = out st"
  by (simp_all add: loop_body_eq poll_fields glfwSwapBuffers_def call_def main_render_eq processInput_eq)

lemma loop_body_drawn:
  "drawn (loop_body hs fe st) = drawn st @
     [\<lparr>d_program = shaderProgram hs, d_vao = VAO hs, d_viewport = viewport st,
       d_attrib0 = attrib_format st (VAO hs, 0),
       d_attrib0_enabled = attrib_enabled st (VAO hs, 0),
       d_element_buffer = element_binding st (VAO hs)\<rparr>]"
  by (simp add: loop_body_eq poll_fields glfwSwapBuffers_def call_def main_render_eq processInput_eq)

lemma loop_body_should_close:
  "escape_key fe = GLFW_PRESS \<or> should_close st \<Longrightarrow> should_close (loop_body hs fe st)"
  by (auto simp: loop_body_eq glfwSwapBuffers_def call_def main_render_eq processInput_eq
      intro!: poll_should_close)

lemma loop_body_should_close_iff:
  "should_close (loop_body hs fe st) = (closes fe \<or> should_close st)"
  by (auto simp: loop_body_eq glfwPollEvents_def fold_dispatch_should_close_iff closes_def
      glfwSwapBuffers_def call_def main_render_eq processInput_eq)

lemma is_viewport_not_swap: "is_viewport c \<Longrightarrow> \<not> is_swap c"
  by (cases c) (simp_all add: is_viewport_def is_swap_def)

lemma loop_body_swap_calls:
  "filter is_swap (calls (loop_body hs fe st)) = filter is_swap (calls st) @ [GlfwSwapBuffers]"
proof -
  obtain t where t: "calls (loop_body hs fe st) = calls st @ GlfwGetKey GLFW_KEY_ESCAPE #
     (if escape_key fe = GLFW_PRESS then [GlfwSetWindowShouldClose True] else []) @
     render_calls hs @ [GlfwSwapBuffers, GlfwPollEvents] @ t" "list_all is_viewport t"
    using loop_body_calls by blast
  have "filter is_swap t = []"
    using t(2) by (simp add: list_all_iff filter_empty_conv is_viewport_not_swap)
  then show ?thesis
    by (simp add: t(1) render_calls_def is_swap_def)
qed

lemma is_viewport_not_render: "is_viewport c \<Longrightarrow> \<not> is_render_call c"
  by (cases c) (simp_all add: is_viewport_def is_render_call_def)

lemma viewport_not_render: "list_all is_viewport t \<Longrightarrow> filter is_render_call t = []"
  by (simp add: list_all_iff filter_empty_conv is_viewport_not_render)

lemma render_calls_render: "filter is_render_call (render_calls hs) = render_calls hs"
  by (simp add: render_calls_def is_render_call_def)

lemma loop_body_render_calls:
  "filter is_render_call (calls (loop_body hs fe st)) =
     filter is_render_call (calls st) @ render_calls hs"
proof -
  obtain t where t: "calls (loop_body hs fe st) = calls st @ GlfwGetKey GLFW_KEY_ESCAPE #
     (if escape_key fe = GLFW_PRESS then [GlfwSetWindowShouldClose True] else []) @
     render_calls hs @ [GlfwSwapBuffers, GlfwPollEvents] @ t" "list_all is_viewport t"
    using loop_body_calls by blast
  have "filter is_render_call t = []" using t(2) by (rule viewport_not_render)
  then show ?thesis
    by (simp add: t(1) render_calls_render) (simp add: is_render_call_def)
qed

lemma loop_body_loop_calls:
  "\<exists>t. calls (loop_body hs fe st) = calls st @ t \<and> list_all (loop_call hs) t"
proof -
  obtain t where t: "calls (loop_body hs fe st) = calls st @ GlfwGetKey GLFW_KEY_ESCAPE #
     (if escape_key fe = GLFW_PRESS then [GlfwSetWindowShouldClose True] else []) @
     render_calls hs @ [GlfwSwapBuffers, GlfwPollEvents] @ t" "list_all is_viewport t"
    using loop_body_calls by blast
  have "list_all (loop_call hs) t"
    using t(2) by (simp add: list_all_iff loop_call_def)
  moreover have "list_all (loop_call hs) (render_calls hs)"
    by (simp add: list_all_iff loop_call_def)
  ultimately have "list_all (loop_call hs) (GlfwGetKey GLFW_KEY_ESCAPE #
     (if escape_key fe = GLFW_PRESS then [GlfwSetWindowShouldClose True] else []) @
     render_calls hs @ [GlfwSwapBuffers, GlfwPollEvents] @ t)"
    by (simp add: loop_call_def)
  then show ?thesis using t(1) by blast
qed

lemma loop_call_not_creation: "loop_call hs c \<Longrightarrow> \<not> is_creation c"
  by (cases c) (auto simp: loop_call_def render_calls_def is_creation_def is_viewport_def)

lemma loop_call_not_release: "loop_call hs c \<Longrightarrow> \<not> is_release c"
  by (cases c) (auto simp: loop_call_def render_calls_def is_release_def is_viewport_def)

lemma loop_call_not_create_window: "loop_call hs c \<Longrightarrow> \<not> is_create_window c"
  by (cases c) (auto simp: loop_call_def render_calls_def is_create_window_def is_viewport_def)

lemma filter_loop_calls:
  assumes "list_all (loop_call hs) t"
  shows "filter is_creation t = []" and "filter is_release t = []"
    and "filter is_create_window t = []"
  using assms loop_call_not_creation loop_call_not_release loop_call_not_create_window
  by (auto simp: list_all_iff filter_empty_conv)

subsection \<open>The loop\<close>

lemma main_loop_Nil:
  "main_loop hs [] st = (if should_close st then Some (call GlfwWindowShouldClose st) else None)"
  by (simp add: glfwWindowShouldClose_def)

lemma main_loop_Cons:
  "main_loop hs (fe # fes) st =
     (if should_close st then Some (call GlfwWindowShouldClose st)
      else main_loop hs fes (loop_body hs fe (call GlfwWindowShouldClose st)))"
  by (simp add: glfwWindowShouldClose_def)

declare main_loop.simps [simp del]

lemma main_loop_closed:
  "should_close st \<Longrightarrow> main_loop hs fes st = Some (call GlfwWindowShouldClose st)"
  by (cases fes) (simp_all add: main_loop_Nil main_loop_Cons)

lemma main_loop_calls:
  "main_loop hs fes st = Some st' \<Longrightarrow> \<exists>t. calls st' = calls st @ t \<and> list_all (loop_call hs) t"
proof (induction fes arbitrary: st)
  case Nil
  then show ?case
    by (auto simp: main_loop_Nil call_def loop_call_def split: if_splits)
next
  case (Cons fe fes)
  let ?s = "call GlfwWindowShouldClose st"
  show ?case
  proof (cases "should_close st")
    case True
    then have "st' = ?s" using Cons.prems by (simp add: main_loop_Cons)
    then show ?thesis by (simp add: call_def loop_call_def)
  next
    case False
    then have run: "main_loop hs fes (loop_body hs fe ?s) = Some st'"
      using Cons.prems by (simp add: main_loop_Cons)
    obtain t where t: "calls st' = calls (loop_body hs fe ?s) @ t" "list_all (loop_call hs) t"
      using Cons.IH [OF run] by blast
    obtain u where u: "calls (loop_body hs fe ?s) = calls ?s @ u" "list_all (loop_call hs) u"
      using loop_body_loop_calls by blast
    have "calls st' = calls st @ (GlfwWindowShouldClose # u @ t)"
      using t u by (simp add: call_def)
    moreover have "list_all (loop_call hs) (GlfwWindowShouldClose # u @ t)"
      using t u by (simp add: loop_call_def)
    ultimately show ?thesis by blast
  qed
qed

lemma main_loop_None_iff:
  "main_loop hs fes st = None \<longleftrightarrow> \<not> should_close st \<and> \<not> list_ex closes fes"
proof (induction fes arbitrary: st)
  case Nil
  show ?case by (simp add: main_loop_Nil)
next
  case (Cons fe fes)
  show ?case
  proof (cases "should_close st")
    case True
    then show ?thesis by (simp add: main_loop_Cons)
  next
    case False
    have "should_close (loop_body hs fe (call GlfwWindowShouldClose st)) = closes fe"
      using False by (simp add: loop_body_should_close_iff call_def)
    then show ?thesis
      using False Cons.IH [of "loop_body hs fe (call GlfwWindowShouldClose st)"]
      by (auto simp: main_loop_Cons)
  qed
qed

lemma main_loop_frames:
  "main_loop hs fes st = Some st' \<Longrightarrow>
   \<exists>n. filter is_render_call (calls st') =
          filter is_render_call (calls st) @ concat (replicate n (render_calls hs)) \<and>
       filter is_swap (calls st') = filter is_swap (calls st) @ replicate n GlfwSwapBuffers \<and>
       length (drawn st') = length (drawn st) + n"
proof (induction fes arbitrary: st)
  case Nil
  then have "filter is_render_call (calls st') =
      filter is_render_call (calls st) @ concat (replicate 0 (render_calls hs)) \<and>
      filter is_swap (calls st') = filter is_swap (calls st) @ replicate 0 GlfwSwapBuffers \<and>
      length (drawn st') = length (drawn st) + 0"
    by (auto simp: main_loop_Nil call_def is_render_call_def is_swap_def split: if_splits)
  then show ?case by blast
next
  case (Cons fe fes)
  let ?s = "call GlfwWindowShouldClose st"
  have s: "filter is_render_call (calls ?s) = filter is_render_call (calls st)"
    "filter is_swap (calls ?s) = filter is_swap (calls st)" "drawn ?s = drawn st"
    by (simp_all add: call_def is_render_call_def is_swap_def)
  show ?case
  proof (cases "should_close st")
    case True
    then have "st' = ?s" using Cons.prems by (simp add: main_loop_Cons)
    then have "filter is_render_call (calls st') =
        filter is_render_call (calls st) @ concat (replicate 0 (render_calls hs)) \<and>
        filter is_swap (calls st') = filter is_swap (calls st) @ replicate 0 GlfwSwapBuffers \<and>
        length (drawn st') = length (drawn st) + 0"
      using s by simp
    then show ?thesis by blast
  next
    case False
    then have run: "main_loop hs fes (loop_body hs fe ?s) = Some st'"
      using Cons.prems by (simp add: main_loop_Cons)
    obtain n where n: "filter is_render_call (calls st') =
        filter is_render_call (calls (loop_body hs fe ?s)) @ concat (replicate n (render_calls hs))"
      "filter is_swap (calls st') =
        filter is_swap (calls (loop_body hs fe ?s)) @ replicate n GlfwSwapBuffers"
      "length (drawn st') = length (drawn (loop_body hs fe ?s)) + n"
      using Cons.IH [OF run] by blast
    have "filter is_render_call (calls st') =
        filter is_render_call (calls st) @ concat (replicate (Suc n) (render_calls hs)) \<and>
        filter is_swap (calls st') = filter is_swap (calls st) @ replicate (Suc n) GlfwSwapBuffers \<and>
        length (drawn st') = length (drawn st) + Suc n"
      using n s by (simp add: loop_body_render_calls loop_body_swap_calls loop_body_drawn)
    then show ?thesis by blast
  qed
qed

lemma main_loop_fields:
  "main_loop hs fes st = Some st' \<Longrightarrow>
   size_callback st' = size_callback st \<and> attrib_format st' = attrib_format st \<and>
   attrib_enabled st' = attrib_enabled st \<and> element_binding st' = element_binding st \<and>
   buffer_store st' = buffer_store st \<and> out st' = out st"
proof (induction fes arbitrary: st)
  case Nil
  then show ?case by (auto simp: main_loop_Nil call_def split: if_splits)
next
  case (Cons fe fes)
  show ?case
  proof (cases "should_close st")
    case True
    then show ?thesis using Cons.prems by (auto simp: main_loop_Cons call_def)
  next
    case False
    then have run: "main_loop hs fes (loop_body hs fe (call GlfwWindowShouldClose st)) = Some st'"
      using Cons.prems by (simp add: main_loop_Cons)
    show ?thesis
      using Cons.IH [OF run] by (simp add: loop_body_fields call_def)
  qed
qed

lemma main_loop_drawn:
  "main_loop hs fes st = Some st' \<Longrightarrow>
   \<exists>ds. drawn st' = drawn st @ ds \<and> list_all (draw_reads hs st) ds"
proof (induction fes arbitrary: st)
  case Nil
  then show ?case by (auto simp: main_loop_Nil call_def split: if_splits)
next
  case (Cons fe fes)
  let ?s = "call GlfwWindowShouldClose st"
  show ?case
  proof (cases "should_close st")
    case True
    then show ?thesis using Cons.prems by (auto simp: main_loop_Cons call_def)
  next
    case False
    then have run: "main_loop hs fes (loop_body hs fe ?s) = Some st'"
      using Cons.prems by (simp add: main_loop_Cons)
    obtain ds where ds: "drawn st' = drawn (loop_body hs fe ?s) @ ds"
      "list_all (draw_reads hs (loop_body hs fe ?s)) ds"
      using Cons.IH [OF run] by blast
    have same: "draw_reads hs (loop_body hs fe ?s) = draw_reads hs st"
      by (simp add: draw_reads_def loop_body_fields call_def fun_eq_iff)
    let ?d = "\<lparr>d_program = shaderProgram hs, d_vao = VAO hs, d_viewport = viewport ?s,
       d_attrib0 = attrib_format ?s (VAO hs, 0),
       d_attrib0_enabled = attrib_enabled ?s (VAO hs, 0),
       d_element_buffer = element_binding ?s (VAO hs)\<rparr>"
    have "drawn st' = drawn st @ (?d # ds)"
      using ds(1) by (simp add: loop_body_drawn) (simp add: call_def)
    moreover have "list_all (draw_reads hs st) (?d # ds)"
      using ds(2) same by (simp add: draw_reads_def call_def)
    ultimately show ?thesis by blast
  qed
qed

subsection \<open>The state at the start of the loop\<close>

lemma main_start_eq:
  "main_start e =
     (window_ok e,
      world0\<lparr>calls :=
        [GlfwInit, GlfwWindowHint GLFW_CONTEXT_VERSION_MAJOR (HintInt 3),
         GlfwWindowHint GLFW_CONTEXT_VERSION_MINOR (HintInt 3),
         GlfwWindowHint GLFW_OPENGL_PROFILE GLFW_OPENGL_CORE_PROFILE,
         GlfwCreateWindow 800 600 ''Aprendendo OpenGL/GLFW'']\<rparr>)"
  by (simp add: main_start_def glfwInit_def glfwWindowHint_def glfwCreateWindow_def call_def
      Let_def world0_def WIDTH_def HEIGHT_def)

lemma loop_entry_eq:
  "\<exists>sh. loop_entry e =
     (handles0,
      world0\<lparr>calls :=
        [GlfwInit, GlfwWindowHint GLFW_CONTEXT_VERSION_MAJOR (HintInt 3),
         GlfwWindowHint GLFW_CONTEXT_VERSION_MINOR (HintInt 3),
         GlfwWindowHint GLFW_OPENGL_PROFILE GLFW_OPENGL_CORE_PROFILE,
         GlfwCreateWindow 800 600 ''Aprendendo OpenGL/GLFW'',
         GlfwSetFramebufferSizeCallback, GlfwMakeContextCurrent, GladLoadGL,
         GlGenVertexArrays 1, GlBindVertexArray 1,
         GlGenBuffers 1, GlBindBuffer GL_ARRAY_BUFFER 1,
         GlBufferData GL_ARRAY_BUFFER 48 (FloatData triangleVertices) GL_STATIC_DRAW,
         GlGenBuffers 1, GlBindBuffer GL_ELEMENT_ARRAY_BUFFER 2,
         GlBufferData GL_ELEMENT_ARRAY_BUFFER 24 (UIntData indices) GL_STATIC_DRAW,
         GlCreateShader GL_VERTEX_SHADER, GlCreateShader GL_FRAGMENT_SHADER,
         GlShaderSource 1 (c_str vertexSource), GlCompileShader 1,
         GlGetShaderiv 1 GL_COMPILE_STATUS] @
        (if fst (compiler e GL_VERTEX_SHADER (c_str vertexSource)) then []
         else [GlGetShaderInfoLog 1 512]) @
        [GlShaderSource 2 (c_str vertexShaderSource), GlCompileShader 2,
         GlGetShaderiv 2 GL_COMPILE_STATUS] @
        (if fst (compiler e GL_FRAGMENT_SHADER (c_str vertexShaderSource)) then []
         else [GlGetShaderInfoLog 2 512]) @
        [GlCreateProgram, GlAttachShader 3 1, GlAttachShader 3 2, GlLinkProgram 3,
         GlGetProgramiv 3 GL_LINK_STATUS] @
        (if fst (linker e) then [] else [GlGetProgramInfoLog 3 512]) @
        [GlDeleteShader 1, GlDeleteShader 2, GlGetAttribLocation 3 ''aPos'',
         GlVertexAttribPointer 0 3 GL_FLOAT False 12 0, GlEnableVertexAttribArray 0],
       out :=
        (if fst (compiler e GL_VERTEX_SHADER (c_str vertexSource)) then []
         else ''ERROR::SHADER::VERTEX::COMPILATION_FAILED\<newline>'' @
              c_str (take 511 (snd (compiler e GL_VERTEX_SHADER (c_str vertexSource))) @ [CHR 0x00]) @
              endl) @
        (if fst (compiler e GL_FRAGMENT_SHADER (c_str vertexShaderSource)) then []
         else ''ERROR::SHADER::VERTEX::COMPILATION_FAILED\<newline>'' @
              c_str (take 511 (snd (compiler e GL_FRAGMENT_SHADER (c_str vertexShaderSource))) @ [CHR 0x00]) @
              endl) @
        (if fst (linker e) then []
         else ''\<newline>(Shader PROGRAM Error.) '' @
              ''ERROR::SHADER::VERTEX::COMPILATION_FAILED\<newline>'' @
              c_str (take 511 (snd (linker e)) @ [CHR 0x00]) @ endl),
       size_callback := True,
       vertex_array_binding := 1,
       array_buffer_binding := 1,
       element_binding := (\<lambda>a. 0)(1 := 2),
       attrib_format := [(1, 0) \<mapsto>
          \<lparr>a_size = 3, a_type = GL_FLOAT, a_normalized = False, a_stride = 12, a_offset = 0,
           a_buffer = 1\<rparr>],
       attrib_enabled := (\<lambda>k. False)((1, 0) := True),
       buffer_store := [1 \<mapsto> FloatData triangleVertices, 2 \<mapsto> UIntData indices],
       shaders := sh,
       link_result := linker e,
       last_vertex_array := 1, last_buffer := 2, last_object := 3\<rparr>)"
  by (simp add: loop_entry_def main_start_eq main_setup_def createVertexShader_eq
      createFragmentShader_eq checkIfProgramWasCreatedSucessfully_eq step_defs Let_def world0_def
      handles0_def sizeof_float_def sizeof_unsigned_int_def triangleVertices_def indices_def
      split del: if_split cong del: if_weak_cong)

lemma loop_entry_handles: "fst (loop_entry e) = handles0"
  using loop_entry_eq [of e] by auto

lemma loop_entry_state:
  "buffer_store (snd (loop_entry e)) 1 = Some (FloatData triangleVertices)"
  "buffer_store (snd (loop_entry e)) 2 = Some (UIntData indices)"
  "element_binding (snd (loop_entry e)) 1 = 2"
  "attrib_format (snd (loop_entry e)) (1, 0) =
     Some \<lparr>a_size = 3, a_type = GL_FLOAT, a_normalized = False, a_stride = 12, a_offset = 0,
           a_buffer = 1\<rparr>"
  "attrib_enabled (snd (loop_entry e)) (1, 0)"
  "drawn (snd (loop_entry e)) = []"
  "size_callback (snd (loop_entry e))"
  "\<not> should_close (snd (loop_entry e))"
  using loop_entry_eq [of e] by (auto simp: world0_def)

lemma loop_entry_creation:
  "filter is_creation (calls (snd (loop_entry e))) =
     [GlGenVertexArrays 1, GlGenBuffers 1, GlGenBuffers 1, GlCreateShader GL_VERTEX_SHADER,
      GlCreateShader GL_FRAGMENT_SHADER, GlCreateProgram]"
  using loop_entry_eq [of e] by (auto simp: world0_def is_creation_def)

lemma loop_entry_release:
  "filter is_release (calls (snd (loop_entry e))) = [GlDeleteShader 1, GlDeleteShader 2]"
  using loop_entry_eq [of e] by (auto simp: world0_def is_release_def)

lemma loop_entry_create_window:
  "filter is_create_window (calls (snd (loop_entry e))) =
     [GlfwCreateWindow 800 600 ''Aprendendo OpenGL/GLFW'']"
  using loop_entry_eq [of e] by (auto simp: world0_def is_create_window_def)

lemma loop_entry_buffer_data:
  "filter is_buffer_data (calls (snd (loop_entry e))) =
     [GlBufferData GL_ARRAY_BUFFER 48 (FloatData triangleVertices) GL_STATIC_DRAW,
      GlBufferData GL_ELEMENT_ARRAY_BUFFER 24 (UIntData indices) GL_STATIC_DRAW]"
  using loop_entry_eq [of e] by (auto simp: world0_def is_buffer_data_def)

lemma loop_entry_draw: "filter is_draw (calls (snd (loop_entry e))) = []"
  using loop_entry_eq [of e] by (auto simp: world0_def is_draw_def)

subsection \<open>The whole program\<close>

lemma main_prog_no_window:
  "\<not> window_ok e \<Longrightarrow>
   main_prog e = Some (- 1, glfwTerminate (cout endl (cout ''Failed to create GLFW window'' (snd (main_start e)))))"
  by (simp add: main_prog_def main_start_eq Let_def)

lemma main_prog_window:
  assumes "window_ok e"
  shows "main_prog e =
     (case main_loop handles0 (frames e) (snd (loop_entry e)) of
        None \<Rightarrow> None
      | Some st \<Rightarrow> Some (0, main_shutdown handles0 st))"
proof -
  obtain s0 where s0: "main_start e = (True, s0)"
    using assms by (simp add: main_start_eq)
  obtain st where le: "loop_entry e = (handles0, st)"
    using loop_entry_handles [of e] by (cases "loop_entry e") simp
  have ms: "main_setup e s0 = (handles0, st)"
    using le s0 by (simp add: loop_entry_def)
  show ?thesis
    by (simp add: main_prog_def s0 ms le)
qed

lemma main_prog_None_iff:
  "main_prog e = None \<longleftrightarrow> window_ok e \<and> \<not> list_ex closes (frames e)"
proof (cases "window_ok e")
  case True
  have "\<not> should_close (snd (loop_entry e))" by (simp add: loop_entry_state)
  then show ?thesis
    using True main_loop_None_iff [of handles0 "frames e" "snd (loop_entry e)"]
    by (auto simp: main_prog_window split: option.splits)
next
  case False
  then show ?thesis by (simp add: main_prog_no_window)
qed

lemma main_prog_window_Some:
  "window_ok e \<Longrightarrow> main_prog e = Some (code, w) \<Longrightarrow>
   code = 0 \<and> (\<exists>st. main_loop handles0 (frames e) (snd (loop_entry e)) = Some st \<and>
                 w = main_shutdown handles0 st)"
  by (auto simp: main_prog_window split: option.splits)

lemma main_prog_no_window_Some:
  "\<not> window_ok e \<Longrightarrow> main_prog e = Some (code, w) \<Longrightarrow>
   code = - 1 \<and>
   w = world0\<lparr>calls :=
         [GlfwInit, GlfwWindowHint GLFW_CONTEXT_VERSION_MAJOR (HintInt 3),
          GlfwWindowHint GLFW_CONTEXT_VERSION_MINOR (HintInt 3),
          GlfwWindowHint GLFW_OPENGL_PROFILE GLFW_OPENGL_CORE_PROFILE,
          GlfwCreateWindow 800 600 ''Aprendendo OpenGL/GLFW'', GlfwTerminate],
        out := ''Failed to create GLFW window'' @ endl\<rparr>"
  by (auto simp: main_prog_no_window main_start_eq glfwTerminate_def cout_def call_def world0_def)

lemma main_loop_escape:
  assumes "\<not> should_close st" "escape_key fe = GLFW_PRESS"
  shows "main_loop hs (fe # fes) st =
     Some (call GlfwWindowShouldClose (loop_body hs fe (call GlfwWindowShouldClose st)))"
proof -
  have "should_close (loop_body hs fe (call GlfwWindowShouldClose st))"
    using assms(2) by (simp add: loop_body_should_close)
  then show ?thesis using assms(1) by (simp add: main_loop_Cons main_loop_closed)
qed

lemma main_prog_env_escape: "main_prog env_escape = Some (0, world_escape)"
proof -
  have w: "window_ok env_escape" and f: "frames env_escape = [frame_escape]"
    by (simp_all add: env_escape_def)
  have "main_loop handles0 [frame_escape] (snd (loop_entry env_escape)) =
      Some (call GlfwWindowShouldClose
             (loop_body handles0 frame_escape (call GlfwWindowShouldClose (snd (loop_entry env_escape)))))"
    by (simp add: main_loop_escape loop_entry_state frame_escape_def)
  then show ?thesis
    by (simp add: main_prog_window [OF w] f world_escape_def)
qed

lemma createVertexShader_failure:
  assumes "shaders st s = Some sh"
    and "compiler e (sh_stage sh) (c_str vertexSource) = (False, lg)"
  shows "out (createVertexShader e s st) =
     out st @ ''ERROR::SHADER::VERTEX::COMPILATION_FAILED\<newline>'' @ c_str (take 511 lg @ [CHR 0x00]) @ endl"
  using assms by (simp add: createVertexShader_eq)

lemma createFragmentShader_failure:
  assumes "shaders st s = Some sh"
    and "compiler e (sh_stage sh) (c_str vertexShaderSource) = (False, lg)"
  shows "out (createFragmentShader e s st) =
     out st @ ''ERROR::SHADER::VERTEX::COMPILATION_FAILED\<newline>'' @ c_str (take 511 lg @ [CHR 0x00]) @ endl"
  using assms by (simp add: createFragmentShader_eq)

lemma main_prog_calls:
  assumes "window_ok e" "main_prog e = Some (code, w)"
  shows "\<exists>t. calls w = calls (snd (loop_entry e)) @ t @
      [GlDeleteVertexArrays [1], GlDeleteBuffers [1], GlDeleteBuffers [2], GlDeleteProgram 3,
       GlfwTerminate] \<and> list_all (loop_call handles0) t"
proof -
  obtain st where st: "main_loop handles0 (frames e) (snd (loop_entry e)) = Some st"
      "w = main_shutdown handles0 st"
    using main_prog_window_Some [OF assms] by blast
  obtain t where t: "calls st = calls (snd (loop_entry e)) @ t" "list_all (loop_call handles0) t"
    using main_loop_calls [OF st(1)] by blast
  have "calls w = calls (snd (loop_entry e)) @ t @
      [GlDeleteVertexArrays [1], GlDeleteBuffers [1], GlDeleteBuffers [2], GlDeleteProgram 3,
       GlfwTerminate]"
    by (simp add: st(2) main_shutdown_eq t(1) handles0_def)
  then show ?thesis using t(2) by blast
qed

lemma main_prog_no_window_calls:
  assumes "\<not> window_ok e" "main_prog e = Some (code, w)"
  shows "calls w =
     [GlfwInit, GlfwWindowHint GLFW_CONTEXT_VERSION_MAJOR (HintInt 3),
      GlfwWindowHint GLFW_CONTEXT_VERSION_MINOR (HintInt 3),
      GlfwWindowHint GLFW_OPENGL_PROFILE GLFW_OPENGL_CORE_PROFILE,
      GlfwCreateWindow 800 600 ''Aprendendo OpenGL/GLFW'', GlfwTerminate]"
  using main_prog_no_window_Some [OF assms] by simp

section \<open>The claims\<close>

text \<open>
  Claim C1 asks that a shader that fails to compile leaves a diagnostic naming its own
  stage. \<^verbatim>\<open>createFragmentShader\<close> reports through \<^verbatim>\<open>checkIfShaderRunSucessfully\<close>, whose
  text is fixed to the vertex stage (lemma \<open>createFragmentShader_failure\<close>). At the input
  \<open>env_fragment_fails\<close>, where the driver rejects the fragment source, the text written
  for the fragment shader is the vertex diagnostic followed by the driver's log, and the
  word FRAGMENT does not occur in it. The run itself goes on: \<^verbatim>\<open>main\<close> returns 0.
\<close>

theorem C1_fragment_failure_labelled_vertex:
  "out (createFragmentShader env_fragment_fails 2
          (snd (glCreateShader GL_FRAGMENT_SHADER (snd (glCreateShader GL_VERTEX_SHADER world0))))) =
     ''ERROR::SHADER::VERTEX::COMPILATION_FAILED\<newline>0(1) : error C0000: syntax error\<newline>'' \<and>
   \<not> sublist ''FRAGMENT''
     (out (createFragmentShader env_fragment_fails 2
          (snd (glCreateShader GL_FRAGMENT_SHADER (snd (glCreateShader GL_VERTEX_SHADER world0)))))) \<and>
   (\<exists>w. main_prog env_fragment_fails = Some (0, w))"
proof -
  have w: "window_ok env_fragment_fails" and f: "frames env_fragment_fails = [frame_escape]"
    by (simp_all add: env_fragment_fails_def)
  have "main_loop handles0 [frame_escape] (snd (loop_entry env_fragment_fails)) =
      Some (call GlfwWindowShouldClose
             (loop_body handles0 frame_escape
               (call GlfwWindowShouldClose (snd (loop_entry env_fragment_fails)))))"
    by (simp add: main_loop_escape loop_entry_state frame_escape_def)
  then have run: "\<exists>w. main_prog env_fragment_fails = Some (0, w)"
    by (simp add: main_prog_window [OF w] f)
  have o: "out (createFragmentShader env_fragment_fails 2
          (snd (glCreateShader GL_FRAGMENT_SHADER (snd (glCreateShader GL_VERTEX_SHADER world0))))) =
     ''ERROR::SHADER::VERTEX::COMPILATION_FAILED\<newline>0(1) : error C0000: syntax error\<newline>''"
    by (simp add: createFragmentShader_eq glCreateShader_def call_def world0_def
        env_fragment_fails_def c_str_def endl_def)
  have "\<not> sublist ''FRAGMENT''
     ''ERROR::SHADER::VERTEX::COMPILATION_FAILED\<newline>0(1) : error C0000: syntax error\<newline>''"
    by code_simp
  then show ?thesis using run by (simp only: o simp_thms)
qed

text \<open>
  Claim C2: the render step of every frame makes exactly six calls, in this order: set
  the clear color to (0.2, 0.3, 0.3, 1.0) and clear the color buffer, use the shader
  program, bind the vertex array, draw 6 indices of type \<^verbatim>\<open>GL_UNSIGNED_INT\<close> as
  \<^verbatim>\<open>GL_TRIANGLES\<close>, bind vertex array 0. It changes the clear color, the current program,
  the vertex array binding and the list of draws, and nothing else. Every iteration of
  the loop performs it: the calls of an iteration are those of \<^verbatim>\<open>processInput\<close>, then
  this sequence, then \<^verbatim>\<open>glfwSwapBuffers\<close> and \<^verbatim>\<open>glfwPollEvents\<close> with the viewport
  calls of its resize events, and the loop, while the window is not asked to close, runs
  this body and goes on. Over a whole run of the loop, the OpenGL calls made outside the
  resize callback are this sequence repeated n times, where n is the number of buffer
  swaps, that is of iterations, and of draws.
\<close>

theorem C2_frame_render_sequence:
  "calls (main_render hs st) = calls st @
     [GlClearColor 0.2 0.3 0.3 1.0, GlClear GL_COLOR_BUFFER_BIT, GlUseProgram (shaderProgram hs),
      GlBindVertexArray (VAO hs), GlDrawElements GL_TRIANGLES 6 GL_UNSIGNED_INT 0,
      GlBindVertexArray 0] \<and>
   main_render hs st =
     st\<lparr>calls := calls (main_render hs st), clear_color := (0.2, 0.3, 0.3, 1.0),
        current_program := shaderProgram hs, vertex_array_binding := 0,
        drawn := drawn st @
          [\<lparr>d_program = shaderProgram hs, d_vao = VAO hs, d_viewport = viewport st,
            d_attrib0 = attrib_format st (VAO hs, 0),
            d_attrib0_enabled = attrib_enabled st (VAO hs, 0),
            d_element_buffer = element_binding st (VAO hs)\<rparr>]\<rparr> \<and>
   (\<exists>t. calls (loop_body hs fe st) = calls (processInput fe st) @
          [GlClearColor 0.2 0.3 0.3 1.0, GlClear GL_COLOR_BUFFER_BIT, GlUseProgram (shaderProgram hs),
           GlBindVertexArray (VAO hs), GlDrawElements GL_TRIANGLES 6 GL_UNSIGNED_INT 0,
           GlBindVertexArray 0] @ [GlfwSwapBuffers, GlfwPollEvents] @ t \<and>
        list_all is_viewport t) \<and>
   filter is_render_call (calls (loop_body hs fe st)) = filter is_render_call (calls st) @
     [GlClearColor 0.2 0.3 0.3 1.0, GlClear GL_COLOR_BUFFER_BIT, GlUseProgram (shaderProgram hs),
      GlBindVertexArray (VAO hs), GlDrawElements GL_TRIANGLES 6 GL_UNSIGNED_INT 0,
      GlBindVertexArray 0] \<and>
   (\<not> should_close st \<longrightarrow>
      main_loop hs (fe # fes) st =
        main_loop hs fes (loop_body hs fe (snd (glfwWindowShouldClose st)))) \<and>
   (main_loop hs frs st = Some st' \<longrightarrow>
      (\<exists>n. filter is_render_call (calls st') = filter is_render_call (calls st) @
         concat (replicate n
           [GlClearColor 0.2 0.3 0.3 1.0, GlClear GL_COLOR_BUFFER_BIT, GlUseProgram (shaderProgram hs),
            GlBindVertexArray (VAO hs), GlDrawElements GL_TRIANGLES 6 GL_UNSIGNED_INT 0,
            GlBindVertexArray 0]) \<and>
         filter is_swap (calls st') = filter is_swap (calls st) @ replicate n GlfwSwapBuffers \<and>
         length (drawn st') = length (drawn st) + n))"
proof (intro conjI impI)
  show "calls (main_render hs st) = calls st @
     [GlClearColor 0.2 0.3 0.3 1.0, GlClear GL_COLOR_BUFFER_BIT, GlUseProgram (shaderProgram hs),
      GlBindVertexArray (VAO hs), GlDrawElements GL_TRIANGLES 6 GL_UNSIGNED_INT 0,
      GlBindVertexArray 0]"
    by (simp add: main_render_eq render_calls_def)
  show "main_render hs st =
     st\<lparr>calls := calls (main_render hs st), clear_color := (0.2, 0.3, 0.3, 1.0),
        current_program := shaderProgram hs, vertex_array_binding := 0,
        drawn := drawn st @
          [\<lparr>d_program = shaderProgram hs, d_vao = VAO hs, d_viewport = viewport st,
            d_attrib0 = attrib_format st (VAO hs, 0),
            d_attrib0_enabled = attrib_enabled st (VAO hs, 0),
            d_element_buffer = element_binding st (VAO hs)\<rparr>]\<rparr>"
    by (simp add: main_render_eq)
  show "\<exists>t. calls (loop_body hs fe st) = calls (processInput fe st) @
          [GlClearColor 0.2 0.3 0.3 1.0, GlClear GL_COLOR_BUFFER_BIT, GlUseProgram (shaderProgram hs),
           GlBindVertexArray (VAO hs), GlDrawElements GL_TRIANGLES 6 GL_UNSIGNED_INT 0,
           GlBindVertexArray 0] @ [GlfwSwapBuffers, GlfwPollEvents] @ t \<and>
        list_all is_viewport t"
    using loop_body_calls [of hs fe st] by (simp add: processInput_eq render_calls_def)
  show "filter is_render_call (calls (loop_body hs fe st)) = filter is_render_call (calls st) @
     [GlClearColor 0.2 0.3 0.3 1.0, GlClear GL_COLOR_BUFFER_BIT, GlUseProgram (shaderProgram hs),
      GlBindVertexArray (VAO hs), GlDrawElements GL_TRIANGLES 6 GL_UNSIGNED_INT 0,
      GlBindVertexArray 0]"
    by (simp add: loop_body_render_calls render_calls_def)
next
  assume "\<not> should_close st"
  then show "main_loop hs (fe # fes) st =
        main_loop hs fes (loop_body hs fe (snd (glfwWindowShouldClose st)))"
    by (simp add: main_loop_Cons glfwWindowShouldClose_def)
next
  assume "main_loop hs frs st = Some st'"
  then show "\<exists>n. filter is_render_call (calls st') = filter is_render_call (calls st) @
         concat (replicate n
           [GlClearColor 0.2 0.3 0.3 1.0, GlClear GL_COLOR_BUFFER_BIT, GlUseProgram (shaderProgram hs),
            GlBindVertexArray (VAO hs), GlDrawElements GL_TRIANGLES 6 GL_UNSIGNED_INT 0,
            GlBindVertexArray 0]) \<and>
         filter is_swap (calls st') = filter is_swap (calls st) @ replicate n GlfwSwapBuffers \<and>
         length (drawn st') = length (drawn st) + n"
    using main_loop_frames [of hs frs st st'] by (simp add: render_calls_def)
qed

theorem C2_frame_render_sequence_witness:
  "\<not> should_close world0 \<and>
   main_loop handles0 [frame_escape] world0 =
     main_loop handles0 [] (loop_body handles0 frame_escape (snd (glfwWindowShouldClose world0))) \<and>
   main_loop handles0 [frame_escape] world0 =
     Some (call GlfwWindowShouldClose (loop_body handles0 frame_escape (call GlfwWindowShouldClose world0))) \<and>
   (\<exists>n. filter is_render_call
          (calls (call GlfwWindowShouldClose
                   (loop_body handles0 frame_escape (call GlfwWindowShouldClose world0)))) =
        filter is_render_call (calls world0) @
        concat (replicate n
          [GlClearColor 0.2 0.3 0.3 1.0, GlClear GL_COLOR_BUFFER_BIT, GlUseProgram 3,
           GlBindVertexArray 1, GlDrawElements GL_TRIANGLES 6 GL_UNSIGNED_INT 0,
           GlBindVertexArray 0]) \<and>
        filter is_swap
          (calls (call GlfwWindowShouldClose
                   (loop_body handles0 frame_escape (call GlfwWindowShouldClose world0)))) =
        filter is_swap (calls world0) @ replicate n GlfwSwapBuffers \<and>
        length (drawn (call GlfwWindowShouldClose
                   (loop_body handles0 frame_escape (call GlfwWindowShouldClose world0)))) =
        length (drawn world0) + n)"
proof -
  have c: "\<not> should_close world0" by (simp add: world0_def)
  have h: "main_loop handles0 [frame_escape] world0 =
     Some (call GlfwWindowShouldClose (loop_body handles0 frame_escape (call GlfwWindowShouldClose world0)))"
    by (simp add: main_loop_escape world0_def frame_escape_def)
  show ?thesis
    using c h C2_frame_render_sequence [of handles0 world0 frame_escape "[]" "[frame_escape]"
        "call GlfwWindowShouldClose (loop_body handles0 frame_escape (call GlfwWindowShouldClose world0))"]
    by (simp add: handles0_def)
qed

text \<open>
  Claim C3: when the loop is entered, the vertex buffer holds the twelve floats of
  \<open>triangleVertices\<close>, which are the four positions (0.5, 0.5, 0), (0.5, -0.5, 0),
  (-0.5, -0.5, 0), (-0.5, 0.5, 0); the index buffer holds 0, 1, 3, 1, 2, 3, which are the
  triangles (0, 1, 3) and (1, 2, 3), sharing the vertices 1 and 3. The two buffers are
  distinct, the index buffer is the element buffer of the vertex array, and the two
  uploads are the only ones.
\<close>

theorem C3_uploaded_geometry:
  "buffer_store (snd (loop_entry e)) (VBO (fst (loop_entry e))) = Some (FloatData triangleVertices) \<and>
   group3 triangleVertices = [(0.5, 0.5, 0), (0.5, - 0.5, 0), (- 0.5, - 0.5, 0), (- 0.5, 0.5, 0)] \<and>
   length (group3 triangleVertices) = 4 \<and>
   buffer_store (snd (loop_entry e)) (EBO (fst (loop_entry e))) = Some (UIntData indices) \<and>
   indices = [0, 1, 3, 1, 2, 3] \<and>
   group3 indices = [(0, 1, 3), (1, 2, 3)] \<and>
   set (take 3 indices) \<inter> set (drop 3 indices) = {1, 3} \<and>
   VBO (fst (loop_entry e)) \<noteq> EBO (fst (loop_entry e)) \<and>
   element_binding (snd (loop_entry e)) (VAO (fst (loop_entry e))) = EBO (fst (loop_entry e)) \<and>
   filter is_buffer_data (calls (snd (loop_entry e))) =
     [GlBufferData GL_ARRAY_BUFFER 48 (FloatData triangleVertices) GL_STATIC_DRAW,
      GlBufferData GL_ELEMENT_ARRAY_BUFFER 24 (UIntData indices) GL_STATIC_DRAW]"
proof -
  have "set (take 3 indices) \<inter> set (drop 3 indices) = {1, 3}"
    by (auto simp: indices_def)
  moreover have "group3 triangleVertices =
      [(0.5, 0.5, 0), (0.5, - 0.5, 0), (- 0.5, - 0.5, 0), (- 0.5, 0.5, 0)]"
    by (simp add: triangleVertices_def)
  moreover have "group3 indices = [(0, 1, 3), (1, 2, 3)]" "indices = [0, 1, 3, 1, 2, 3]"
    by (simp_all add: indices_def)
  ultimately show ?thesis
    by (simp add: loop_entry_handles loop_entry_state loop_entry_buffer_data handles0_def)
qed

text \<open>
  Claim C4: for a framebuffer size (w, h), the callback makes the single call
  \<^verbatim>\<open>glViewport(0, 0, w, h)\<close>, and for the sizes GLFW reports (neither negative) the
  viewport is then exactly (0, 0, w, h). The callback runs inside \<^verbatim>\<open>glfwPollEvents\<close>, the
  last call of an iteration: when a size is the last event of an iteration, the viewport
  at the end of that iteration is (0, 0, w, h), and the draw of the next iteration is
  issued against it.
\<close>

theorem C4_resize_sets_viewport:
  "calls (frameBufferSize_callback w h st) = calls st @ [GlViewport 0 0 w h] \<and>
   (0 \<le> w \<and> 0 \<le> h \<longrightarrow> viewport (frameBufferSize_callback w h st) = Some (0, 0, w, h)) \<and>
   (0 \<le> w \<and> 0 \<le> h \<and> size_callback st \<and> events fe = evs @ [FramebufferSize w h] \<longrightarrow>
      viewport (loop_body hs fe st) = Some (0, 0, w, h) \<and>
      d_viewport (last (drawn (loop_body hs fe' (loop_body hs fe st)))) = Some (0, 0, w, h))"
proof (intro conjI impI)
  show "calls (frameBufferSize_callback w h st) = calls st @ [GlViewport 0 0 w h]"
    by (simp add: frameBufferSize_callback_eq)
next
  assume "0 \<le> w \<and> 0 \<le> h"
  then show "viewport (frameBufferSize_callback w h st) = Some (0, 0, w, h)"
    by (simp add: frameBufferSize_callback_eq)
next
  assume a: "0 \<le> w \<and> 0 \<le> h \<and> size_callback st \<and> events fe = evs @ [FramebufferSize w h]"
  let ?s = "call GlfwPollEvents (glfwSwapBuffers (main_render hs (processInput fe st)))"
  have "size_callback (fold dispatch evs ?s) = size_callback ?s"
    by (subst fold_dispatch_frame) simp
  then have "size_callback (fold dispatch evs ?s)"
    using a by (simp add: call_def glfwSwapBuffers_def main_render_eq processInput_eq)
  then show v: "viewport (loop_body hs fe st) = Some (0, 0, w, h)"
    using a by (simp add: loop_body_eq glfwPollEvents_def dispatch_eq)
  show "d_viewport (last (drawn (loop_body hs fe' (loop_body hs fe st)))) = Some (0, 0, w, h)"
    using v by (simp add: loop_body_drawn)
qed

theorem C4_resize_sets_viewport_witness:
  "(0::int) \<le> 640 \<and> (0::int) \<le> 480 \<and> size_callback (glfwSetFramebufferSizeCallback world0) \<and>
   events frame_resize = [] @ [FramebufferSize 640 480] \<and>
   viewport (frameBufferSize_callback 640 480 (glfwSetFramebufferSizeCallback world0)) =
     Some (0, 0, 640, 480) \<and>
   viewport (loop_body handles0 frame_resize (glfwSetFramebufferSizeCallback world0)) =
     Some (0, 0, 640, 480) \<and>
   d_viewport (last (drawn (loop_body handles0 frame_escape
     (loop_body handles0 frame_resize (glfwSetFramebufferSizeCallback world0))))) = Some (0, 0, 640, 480)"
proof -
  have h: "(0::int) \<le> 640 \<and> (0::int) \<le> 480 \<and> size_callback (glfwSetFramebufferSizeCallback world0) \<and>
      events frame_resize = [] @ [FramebufferSize 640 480]"
    by (simp add: glfwSetFramebufferSizeCallback_def call_def frame_resize_def)
  show ?thesis
    using h C4_resize_sets_viewport [of 640 480 "glfwSetFramebufferSizeCallback world0"
        frame_resize "[]" handles0 frame_escape]
    by simp
qed

text \<open>
  Claim C5, amended: an iteration of the loop makes no call that creates a handle. A run
  in which the window was created makes exactly six such calls, all before the loop: one
  vertex array, two buffers, the vertex shader object, the fragment shader object and
  the program; the two shader objects are handed to \<^verbatim>\<open>glDeleteShader\<close> before the loop.
  A run in which the window could not be created makes none.
\<close>

theorem C5_six_creation_calls:
  "(main_prog e = Some (code, w) \<longrightarrow>
      filter is_creation (calls w) =
        (if window_ok e
         then [GlGenVertexArrays 1, GlGenBuffers 1, GlGenBuffers 1, GlCreateShader GL_VERTEX_SHADER,
               GlCreateShader GL_FRAGMENT_SHADER, GlCreateProgram]
         else [])) \<and>
   filter is_creation (calls (loop_body hs fe st)) = filter is_creation (calls st) \<and>
   filter is_release (calls (snd (loop_entry e))) = [GlDeleteShader 1, GlDeleteShader 2]"
proof (intro conjI impI)
  assume run: "main_prog e = Some (code, w)"
  show "filter is_creation (calls w) =
        (if window_ok e
         then [GlGenVertexArrays 1, GlGenBuffers 1, GlGenBuffers 1, GlCreateShader GL_VERTEX_SHADER,
               GlCreateShader GL_FRAGMENT_SHADER, GlCreateProgram]
         else [])"
  proof (cases "window_ok e")
    case True
    obtain t where t: "calls w = calls (snd (loop_entry e)) @ t @
        [GlDeleteVertexArrays [1], GlDeleteBuffers [1], GlDeleteBuffers [2], GlDeleteProgram 3,
         GlfwTerminate]" "list_all (loop_call handles0) t"
      using main_prog_calls [OF True run] by blast
    have "filter is_creation t = []" using t(2) by (rule filter_loop_calls)
    then show ?thesis
      using True by (simp add: t(1) loop_entry_creation) (simp add: is_creation_def)
  next
    case False
    then show ?thesis
      using main_prog_no_window_calls [OF False run] by (simp add: is_creation_def)
  qed
next
  obtain t where t: "calls (loop_body hs fe st) = calls st @ t" "list_all (loop_call hs) t"
    using loop_body_loop_calls by blast
  have "filter is_creation t = []" using t(2) by (rule filter_loop_calls)
  then show "filter is_creation (calls (loop_body hs fe st)) = filter is_creation (calls st)"
    by (simp add: t(1))
next
  show "filter is_release (calls (snd (loop_entry e))) = [GlDeleteShader 1, GlDeleteShader 2]"
    by (rule loop_entry_release)
qed

theorem C5_six_creation_calls_witness:
  "main_prog env_escape = Some (0, world_escape) \<and>
   filter is_creation (calls world_escape) =
     [GlGenVertexArrays 1, GlGenBuffers 1, GlGenBuffers 1, GlCreateShader GL_VERTEX_SHADER,
      GlCreateShader GL_FRAGMENT_SHADER, GlCreateProgram]"
proof -
  have w: "window_ok env_escape" by (simp add: env_escape_def)
  show ?thesis
    using main_prog_env_escape w C5_six_creation_calls [of env_escape 0 world_escape] by simp
qed

text \<open>
  Claim C5 as stated counts four creation calls. The run of \<open>env_escape\<close> (the window is
  created, Escape is pressed in the first frame) makes six.
\<close>

theorem C5_not_four_creation_calls_counterexample:
  "creation_count env_escape = Some 6 \<and> creation_count env_escape \<noteq> Some 4"
proof -
  have w: "window_ok env_escape" by (simp add: env_escape_def)
  obtain t where t: "calls world_escape = calls (snd (loop_entry env_escape)) @ t @
        [GlDeleteVertexArrays [1], GlDeleteBuffers [1], GlDeleteBuffers [2], GlDeleteProgram 3,
         GlfwTerminate]" "list_all (loop_call handles0) t"
    using main_prog_calls [OF w main_prog_env_escape] by blast
  have "filter is_creation t = []" using t(2) by (rule filter_loop_calls)
  then have "length (filter is_creation (calls world_escape)) = 6"
    by (simp add: t(1) loop_entry_creation) (simp add: is_creation_def)
  then show ?thesis
    by (simp add: creation_count_def creation_calls_def main_prog_env_escape)
qed

text \<open>
  Claim C6: when the window cannot be created, \<^verbatim>\<open>main\<close> returns -1 whatever the other
  inputs are. When the window is created and some frame asks it to close, by the Escape
  key or by a close request, \<^verbatim>\<open>main\<close> returns 0; it is still running at the end of the
  frames exactly when the window was created and no frame asks it to close. Whenever
  \<^verbatim>\<open>main\<close> returns, the value is 0 or -1, it is different from 0 exactly when the window
  could not be created, and \<^verbatim>\<open>glfwCreateWindow\<close> was called once.
\<close>

theorem C6_exit_status:
  "(\<not> window_ok e \<longrightarrow> (\<exists>w. main_prog e = Some (- 1, w))) \<and>
   (window_ok e \<and> list_ex closes (frames e) \<longrightarrow> (\<exists>w. main_prog e = Some (0, w))) \<and>
   (main_prog e = None \<longleftrightarrow> window_ok e \<and> \<not> list_ex closes (frames e)) \<and>
   (main_prog e = Some (code, w) \<longrightarrow>
      (code \<noteq> 0 \<longleftrightarrow> \<not> window_ok e) \<and> (code = 0 \<or> code = - 1) \<and>
      filter is_create_window (calls w) = [GlfwCreateWindow WIDTH HEIGHT ''Aprendendo OpenGL/GLFW''])"
proof (intro conjI impI)
  assume "\<not> window_ok e"
  then show "\<exists>w. main_prog e = Some (- 1, w)" by (simp add: main_prog_no_window)
next
  assume a: "window_ok e \<and> list_ex closes (frames e)"
  then have "main_prog e \<noteq> None" by (simp add: main_prog_None_iff)
  then obtain code w where r: "main_prog e = Some (code, w)" by (cases "main_prog e") auto
  then have "code = 0" using a main_prog_window_Some [of e code w] by simp
  then show "\<exists>w. main_prog e = Some (0, w)" using r by blast
next
  show "main_prog e = None \<longleftrightarrow> window_ok e \<and> \<not> list_ex closes (frames e)"
    by (rule main_prog_None_iff)
next
  assume run: "main_prog e = Some (code, w)"
  have code: "code = (if window_ok e then 0 else - 1)"
    using run main_prog_window_Some [of e code w] main_prog_no_window_Some [of e code w] by auto
  show "(code \<noteq> 0) = (\<not> window_ok e)" by (simp add: code)
  show "code = 0 \<or> code = - 1" by (simp add: code)
  show "filter is_create_window (calls w) = [GlfwCreateWindow WIDTH HEIGHT ''Aprendendo OpenGL/GLFW'']"
  proof (cases "window_ok e")
    case True
    obtain t where t: "calls w = calls (snd (loop_entry e)) @ t @
        [GlDeleteVertexArrays [1], GlDeleteBuffers [1], GlDeleteBuffers [2], GlDeleteProgram 3,
         GlfwTerminate]" "list_all (loop_call handles0) t"
      using main_prog_calls [OF True run] by blast
    have "filter is_create_window t = []" using t(2) by (rule filter_loop_calls)
    then show ?thesis
      by (simp add: t(1) loop_entry_create_window WIDTH_def HEIGHT_def) (simp add: is_create_window_def)
  next
    case False
    then show ?thesis
      using main_prog_no_window_calls [OF False run]
      by (simp add: is_create_window_def WIDTH_def HEIGHT_def)
  qed
qed

theorem C6_exit_status_witness:
  "main_prog env_escape = Some (0, world_escape) \<and> window_ok env_escape \<and>
   list_ex closes (frames env_escape) \<and>
   filter is_create_window (calls world_escape) =
     [GlfwCreateWindow WIDTH HEIGHT ''Aprendendo OpenGL/GLFW''] \<and>
   window_ok env_close_button \<and> list_ex closes (frames env_close_button) \<and>
   (\<exists>w. main_prog env_close_button = Some (0, w)) \<and>
   window_ok env_running \<and> \<not> list_ex closes (frames env_running) \<and>
   main_prog env_running = None \<and>
   \<not> window_ok env_no_window \<and> (\<exists>w. main_prog env_no_window = Some (- 1, w))"
proof -
  have n: "\<not> window_ok env_no_window" by (simp add: env_no_window_def)
  have b: "window_ok env_close_button \<and> list_ex closes (frames env_close_button)"
    by (simp add: env_close_button_def closes_def frame_close_def frame_resize_def)
  have r: "window_ok env_running \<and> \<not> list_ex closes (frames env_running)"
    by (simp add: env_running_def closes_def frame_resize_def)
  have c: "window_ok env_escape \<and> list_ex closes (frames env_escape)"
    by (simp add: env_escape_def closes_def frame_escape_def)
  show ?thesis
    using main_prog_env_escape n b r c C6_exit_status [of env_escape 0 world_escape]
      C6_exit_status [of env_no_window 0 world0] C6_exit_status [of env_close_button 0 world0]
      C6_exit_status [of env_running 0 world0]
    by simp
qed

text \<open>
  Claim C7: when the loop is entered, attribute 0 of the vertex array reads 3 components
  of type \<^verbatim>\<open>GL_FLOAT\<close>, not normalized, with a stride of 3 floats (12 bytes) and offset
  0, from the vertex buffer; it is enabled; and no draw call has been made. Every draw of
  a run reads this attribute, enabled.
\<close>

theorem C7_attribute_binding:
  "attrib_format (snd (loop_entry e)) (VAO (fst (loop_entry e)), 0) =
     Some \<lparr>a_size = 3, a_type = GL_FLOAT, a_normalized = False, a_stride = 3 * sizeof_float,
           a_offset = 0, a_buffer = VBO (fst (loop_entry e))\<rparr> \<and>
   sizeof_float = 4 \<and>
   attrib_enabled (snd (loop_entry e)) (VAO (fst (loop_entry e)), 0) \<and>
   drawn (snd (loop_entry e)) = [] \<and>
   filter is_draw (calls (snd (loop_entry e))) = [] \<and>
   (main_prog e = Some (code, w) \<longrightarrow>
      list_all (draw_reads (fst (loop_entry e)) (snd (loop_entry e))) (drawn w))"
proof (intro conjI impI)
  assume run: "main_prog e = Some (code, w)"
  show "list_all (draw_reads (fst (loop_entry e)) (snd (loop_entry e))) (drawn w)"
  proof (cases "window_ok e")
    case True
    obtain st where st: "main_loop handles0 (frames e) (snd (loop_entry e)) = Some st"
        "w = main_shutdown handles0 st"
      using main_prog_window_Some [OF True run] by blast
    obtain ds where ds: "drawn st = drawn (snd (loop_entry e)) @ ds"
        "list_all (draw_reads handles0 (snd (loop_entry e))) ds"
      using main_loop_drawn [OF st(1)] by blast
    show ?thesis
      using ds by (simp add: st(2) main_shutdown_eq loop_entry_state loop_entry_handles)
  next
    case False
    have "drawn w = []"
      using main_prog_no_window_Some [OF False run] by (simp add: world0_def)
    then show ?thesis by simp
  qed
qed (simp_all add: loop_entry_handles loop_entry_state loop_entry_draw handles0_def sizeof_float_def)

theorem C7_attribute_binding_witness:
  "main_prog env_escape = Some (0, world_escape) \<and>
   list_all (draw_reads (fst (loop_entry env_escape)) (snd (loop_entry env_escape))) (drawn world_escape)"
  using main_prog_env_escape C7_attribute_binding [of env_escape 0 world_escape] by simp

text \<open>
  Claim C8: the trace of a run in which the window was created is the trace up to the
  start of the loop, then the calls of the loop, none of which releases a resource, then
  the deletion of the vertex array, of the vertex buffer, of the index buffer and of the
  program, and last \<^verbatim>\<open>glfwTerminate\<close>.
\<close>

theorem C8_release_before_terminate:
  "window_ok e \<and> main_prog e = Some (code, w) \<longrightarrow>
     (\<exists>t. calls w = calls (snd (loop_entry e)) @ t @
        [GlDeleteVertexArrays [VAO (fst (loop_entry e))], GlDeleteBuffers [VBO (fst (loop_entry e))],
         GlDeleteBuffers [EBO (fst (loop_entry e))], GlDeleteProgram (shaderProgram (fst (loop_entry e))),
         GlfwTerminate] \<and>
        filter is_release t = [])"
proof
  assume a: "window_ok e \<and> main_prog e = Some (code, w)"
  obtain t where t: "calls w = calls (snd (loop_entry e)) @ t @
        [GlDeleteVertexArrays [1], GlDeleteBuffers [1], GlDeleteBuffers [2], GlDeleteProgram 3,
         GlfwTerminate]" "list_all (loop_call handles0) t"
    using main_prog_calls [of e code w] a by blast
  have "filter is_release t = []" using t(2) by (rule filter_loop_calls)
  then show "\<exists>t. calls w = calls (snd (loop_entry e)) @ t @
        [GlDeleteVertexArrays [VAO (fst (loop_entry e))], GlDeleteBuffers [VBO (fst (loop_entry e))],
         GlDeleteBuffers [EBO (fst (loop_entry e))], GlDeleteProgram (shaderProgram (fst (loop_entry e))),
         GlfwTerminate] \<and>
        filter is_release t = []"
    using t(1) by (auto simp: loop_entry_handles handles0_def)
qed

theorem C8_release_before_terminate_witness:
  "window_ok env_escape \<and> main_prog env_escape = Some (0, world_escape) \<and>
   (\<exists>t. calls world_escape = calls (snd (loop_entry env_escape)) @ t @
        [GlDeleteVertexArrays [1], GlDeleteBuffers [1], GlDeleteBuffers [2], GlDeleteProgram 3,
         GlfwTerminate] \<and>
        filter is_release t = [])"
proof -
  have w: "window_ok env_escape" by (simp add: env_escape_def)
  show ?thesis
    using w main_prog_env_escape C8_release_before_terminate [of env_escape 0 world_escape]
    by (simp add: loop_entry_handles handles0_def)
qed

text \<open>
  Claim C9: when \<^verbatim>\<open>processInput\<close> sees the Escape key pressed, it sets the close flag of
  the window; the flag is still set at the end of the iteration, so the next check of
  the loop condition finds it and the loop ends there, whatever inputs remain.
\<close>

theorem C9_escape_ends_loop:
  "escape_key fe = GLFW_PRESS \<longrightarrow>
     should_close (processInput fe st) \<and>
     fst (glfwWindowShouldClose (loop_body hs fe st)) \<and>
     main_loop hs fes (loop_body hs fe st) = Some (snd (glfwWindowShouldClose (loop_body hs fe st)))"
proof
  assume p: "escape_key fe = GLFW_PRESS"
  have c: "should_close (loop_body hs fe st)" using p by (simp add: loop_body_should_close)
  show "should_close (processInput fe st) \<and>
     fst (glfwWindowShouldClose (loop_body hs fe st)) \<and>
     main_loop hs fes (loop_body hs fe st) = Some (snd (glfwWindowShouldClose (loop_body hs fe st)))"
    using p c by (simp add: processInput_eq glfwWindowShouldClose_def main_loop_closed)
qed

theorem C9_escape_ends_loop_witness:
  "escape_key frame_escape = GLFW_PRESS \<and>
   should_close (processInput frame_escape world0) \<and>
   fst (glfwWindowShouldClose (loop_body handles0 frame_escape world0)) \<and>
   main_loop handles0 [frame_resize] (loop_body handles0 frame_escape world0) =
     Some (snd (glfwWindowShouldClose (loop_body handles0 frame_escape world0)))"
proof -
  have p: "escape_key frame_escape = GLFW_PRESS" by (simp add: frame_escape_def)
  show ?thesis
    using p C9_escape_ends_loop [of frame_escape world0 handles0 "[frame_resize]"] by simp
qed

text \<open>
  Claim C10: an iteration that starts with the close flag unset and sees the Escape key
  pressed runs to its end. After the close request the trace holds the clear, the draw,
  the buffer swap and the event poll of that iteration (with the viewport calls of its
  resize events), then the check of the loop condition that ends the loop; exactly one
  draw is added.
\<close>

theorem C10_last_frame_completes:
  "\<not> should_close st \<and> escape_key fe = GLFW_PRESS \<longrightarrow>
     (\<exists>st' t. main_loop hs (fe # fes) st = Some st' \<and>
        calls st' = calls st @
          [GlfwWindowShouldClose, GlfwGetKey GLFW_KEY_ESCAPE, GlfwSetWindowShouldClose True,
           GlClearColor 0.2 0.3 0.3 1.0, GlClear GL_COLOR_BUFFER_BIT,
           GlUseProgram (shaderProgram hs), GlBindVertexArray (VAO hs),
           GlDrawElements GL_TRIANGLES 6 GL_UNSIGNED_INT 0, GlBindVertexArray 0,
           GlfwSwapBuffers, GlfwPollEvents] @ t @ [GlfwWindowShouldClose] \<and>
        list_all is_viewport t \<and>
        length (drawn st') = Suc (length (drawn st)))"
proof
  assume a: "\<not> should_close st \<and> escape_key fe = GLFW_PRESS"
  let ?s = "call GlfwWindowShouldClose st"
  let ?r = "call GlfwWindowShouldClose (loop_body hs fe ?s)"
  have run: "main_loop hs (fe # fes) st = Some ?r"
    using a by (simp add: main_loop_escape)
  obtain t where t: "calls (loop_body hs fe ?s) = calls ?s @ GlfwGetKey GLFW_KEY_ESCAPE #
     (if escape_key fe = GLFW_PRESS then [GlfwSetWindowShouldClose True] else []) @
     render_calls hs @ [GlfwSwapBuffers, GlfwPollEvents] @ t" "list_all is_viewport t"
    using loop_body_calls by blast
  have "calls ?r = calls st @
          [GlfwWindowShouldClose, GlfwGetKey GLFW_KEY_ESCAPE, GlfwSetWindowShouldClose True,
           GlClearColor 0.2 0.3 0.3 1.0, GlClear GL_COLOR_BUFFER_BIT,
           GlUseProgram (shaderProgram hs), GlBindVertexArray (VAO hs),
           GlDrawElements GL_TRIANGLES 6 GL_UNSIGNED_INT 0, GlBindVertexArray 0,
           GlfwSwapBuffers, GlfwPollEvents] @ t @ [GlfwWindowShouldClose]"
    using a by (simp add: call_def [of GlfwWindowShouldClose "loop_body hs fe ?s"] t(1) render_calls_def)
       (simp add: call_def)
  moreover have "length (drawn ?r) = Suc (length (drawn st))"
    by (simp add: call_def [of GlfwWindowShouldClose "loop_body hs fe ?s"] loop_body_drawn)
       (simp add: call_def)
  ultimately show "\<exists>st' t. main_loop hs (fe # fes) st = Some st' \<and>
        calls st' = calls st @
          [GlfwWindowShouldClose, GlfwGetKey GLFW_KEY_ESCAPE, GlfwSetWindowShouldClose True,
           GlClearColor 0.2 0.3 0.3 1.0, GlClear GL_COLOR_BUFFER_BIT,
           GlUseProgram (shaderProgram hs), GlBindVertexArray (VAO hs),
           GlDrawElements GL_TRIANGLES 6 GL_UNSIGNED_INT 0, GlBindVertexArray 0,
           GlfwSwapBuffers, GlfwPollEvents] @ t @ [GlfwWindowShouldClose] \<and>
        list_all is_viewport t \<and>
        length (drawn st') = Suc (length (drawn st))"
    using run t(2) by blast
qed

theorem C10_last_frame_completes_witness:
  "\<not> should_close world0 \<and> escape_key frame_escape = GLFW_PRESS \<and>
   (\<exists>st' t. main_loop handles0 [frame_escape, frame_resize] world0 = Some st' \<and>
        calls st' = calls world0 @
          [GlfwWindowShouldClose, GlfwGetKey GLFW_KEY_ESCAPE, GlfwSetWindowShouldClose True,
           GlClearColor 0.2 0.3 0.3 1.0, GlClear GL_COLOR_BUFFER_BIT,
           GlUseProgram 3, GlBindVertexArray 1,
           GlDrawElements GL_TRIANGLES 6 GL_UNSIGNED_INT 0, GlBindVertexArray 0,
           GlfwSwapBuffers, GlfwPollEvents] @ t @ [GlfwWindowShouldClose] \<and>
        list_all is_viewport t \<and>
        length (drawn st') = Suc (length (drawn world0)))"
proof -
  have h: "\<not> should_close world0 \<and> escape_key frame_escape = GLFW_PRESS"
    by (simp add: world0_def frame_escape_def)
  show ?thesis
    using h C10_last_frame_completes [of world0 frame_escape handles0 "[frame_resize]"]
    by (simp add: handles0_def)
qed

end
